theory Spec2Isabelle
  imports Main "HOL-Library.Word" "HOL-Library.Sublist"
begin

section \<open>Go values used by the beacon REST handlers\<close>

text \<open>
  The package under study is \<^verbatim>\<open>beacon-chain/rpc/eth/beacon\<close>: the publish and produce
  handlers (\<^verbatim>\<open>handlers.go\<close>) and the per-fork converters between the JSON structs and
  the protobuf structs (\<^verbatim>\<open>structs_conversions.go\<close>).

  A Go \<^verbatim>\<open>[]byte\<close> is a list of 8-bit words, a \<^verbatim>\<open>uint64\<close> a 64-bit word, a Go
  \<^verbatim>\<open>string\<close> an Isabelle string.  A Go \<^verbatim>\<open>error\<close> built inside the converters is
  kept as a value of \<open>go_error\<close>; a function returning \<^verbatim>\<open>(T, error)\<close> returns
  \<open>go_error + T\<close>, with \<open>Inl\<close> for the non-nil error.
\<close>

type_synonym byte = "8 word"

datatype go_error =
    errors_New string
  | errors_Wrap go_error string
  | strconv_NumError string string string

definition wrapErr :: "go_error + 'a \<Rightarrow> string \<Rightarrow> go_error + 'a" where
  "wrapErr res msg = (case res of Inl err \<Rightarrow> Inl (errors_Wrap err msg) | Inr v \<Rightarrow> Inr v)"

definition bindE :: "'e + 'a \<Rightarrow> ('a \<Rightarrow> 'e + 'b) \<Rightarrow> 'e + 'b" where
  "bindE res f = (case res of Inl err \<Rightarrow> Inl err | Inr v \<Rightarrow> f v)"

subsection \<open>Decimal digits: \<^verbatim>\<open>fmt.Sprintf("%d", n)\<close>, \<^verbatim>\<open>strconv.ParseUint(s, 10, 64)\<close>\<close>

definition isDigit :: "char \<Rightarrow> bool" where
  "isDigit c = (48 \<le> (of_char c :: nat) \<and> (of_char c :: nat) \<le> 57)"

definition digitVal :: "char \<Rightarrow> nat" where
  "digitVal c = of_char c - 48"

definition digitChar :: "nat \<Rightarrow> char" where
  "digitChar d = ''0123456789'' ! d"

fun Sprintf_d :: "nat \<Rightarrow> string" where
  "Sprintf_d n = (if n < 10 then [digitChar n] else Sprintf_d (n div 10) @ [digitChar (n mod 10)])"

declare Sprintf_d.simps [simp del]

text \<open>
  \<^verbatim>\<open>strconv.ParseUint\<close> with base 10 and bit size 64 walks the bytes from the left; a
  byte that is not a decimal digit is a syntax error, and an accumulator that would
  leave the 64-bit range is a range error, whichever comes first.
\<close>

definition maxUint64 :: nat where
  "maxUint64 = 2 ^ 64 - 1"

fun ParseUint_loop :: "string \<Rightarrow> nat \<Rightarrow> string \<Rightarrow> go_error + nat" where
  "ParseUint_loop s0 n [] = Inr n"
| "ParseUint_loop s0 n (c # cs) =
     (if \<not> isDigit c then Inl (strconv_NumError ''ParseUint'' s0 ''invalid syntax'')
      else if n \<ge> maxUint64 div 10 + 1 then Inl (strconv_NumError ''ParseUint'' s0 ''value out of range'')
      else if n * 10 + digitVal c > maxUint64 then Inl (strconv_NumError ''ParseUint'' s0 ''value out of range'')
      else ParseUint_loop s0 (n * 10 + digitVal c) cs)"

definition strconv_ParseUint :: "string \<Rightarrow> go_error + 64 word" where
  "strconv_ParseUint s =
     (if s = [] then Inl (strconv_NumError ''ParseUint'' s ''invalid syntax'')
      else bindE (ParseUint_loop s 0 s) (\<lambda>n. Inr (of_nat n)))"

subsection \<open>\<^verbatim>\<open>hexutil.Encode\<close> and \<^verbatim>\<open>hexutil.Decode\<close> of go-ethereum\<close>

definition hexDigit :: "nat \<Rightarrow> char" where
  "hexDigit d = ''0123456789abcdef'' ! d"

definition hex_EncodeToString :: "byte list \<Rightarrow> string" where
  "hex_EncodeToString b = concat (map (\<lambda>v. [hexDigit (unat v div 16), hexDigit (unat v mod 16)]) b)"

definition hexutil_Encode :: "byte list \<Rightarrow> string" where
  "hexutil_Encode b = ''0x'' @ hex_EncodeToString b"

definition fromHexChar :: "char \<Rightarrow> nat option" where
  "fromHexChar c =
     (let n = (of_char c :: nat) in
      if 48 \<le> n \<and> n \<le> 57 then Some (n - 48)
      else if 97 \<le> n \<and> n \<le> 102 then Some (n - 87)
      else if 65 \<le> n \<and> n \<le> 70 then Some (n - 55)
      else None)"

fun hex_DecodeString :: "string \<Rightarrow> go_error + byte list" where
  "hex_DecodeString [] = Inr []"
| "hex_DecodeString [p] =
     (case fromHexChar p of
        None \<Rightarrow> Inl (errors_New ''invalid hex string'')
      | Some a \<Rightarrow> Inl (errors_New ''hex string of odd length''))"
| "hex_DecodeString (p # q # rest) =
     (case fromHexChar p of
        None \<Rightarrow> Inl (errors_New ''invalid hex string'')
      | Some a \<Rightarrow>
          (case fromHexChar q of
             None \<Rightarrow> Inl (errors_New ''invalid hex string'')
           | Some b \<Rightarrow> bindE (hex_DecodeString rest) (\<lambda>bs. Inr (of_nat (a * 16 + b) # bs))))"

definition has0xPrefix :: "string \<Rightarrow> bool" where
  "has0xPrefix input =
     (length input \<ge> 2 \<and> input ! 0 = CHR ''0'' \<and> (input ! 1 = CHR ''x'' \<or> input ! 1 = CHR ''X''))"

definition hexutil_Decode :: "string \<Rightarrow> go_error + byte list" where
  "hexutil_Decode input =
     (if length input = 0 then Inl (errors_New ''empty hex string'')
      else if \<not> has0xPrefix input then Inl (errors_New ''hex string without 0x prefix'')
      else hex_DecodeString (drop 2 input))"

subsection \<open>\<^verbatim>\<open>math/big\<close>: \<^verbatim>\<open>SetString(num, 10)\<close> and \<^verbatim>\<open>Bytes()\<close>\<close>

text \<open>
  A \<^verbatim>\<open>big.Int\<close> is a sign and a magnitude.  \<^verbatim>\<open>SetString\<close> in base 10 reads one optional
  sign byte (\<^verbatim>\<open>+\<close> or \<^verbatim>\<open>-\<close>), then at least one decimal digit, and must consume
  the whole string; zero never carries a sign.  \<^verbatim>\<open>Bytes\<close> is the big-endian magnitude
  without leading zero bytes (so the empty slice for zero): the sign is not part of it.
\<close>

datatype bigInt = BigInt (neg: bool) (absval: nat)

fun scanDigits :: "nat \<Rightarrow> string \<Rightarrow> nat" where
  "scanDigits acc [] = acc"
| "scanDigits acc (c # cs) = scanDigits (acc * 10 + digitVal c) cs"

definition scanSign :: "string \<Rightarrow> (bool \<times> string) option" where
  "scanSign s =
     (case s of
        [] \<Rightarrow> None
      | ch # rest \<Rightarrow>
          if ch = CHR ''-'' then Some (True, rest)
          else if ch = CHR ''+'' then Some (False, rest)
          else Some (False, s))"

definition bigInt_SetString10 :: "string \<Rightarrow> bigInt option" where
  "bigInt_SetString10 s =
     (case scanSign s of
        None \<Rightarrow> None
      | Some (negative, ds) \<Rightarrow>
          if ds = [] then None
          else if list_all isDigit ds
          then Some (BigInt (scanDigits 0 ds \<noteq> 0 \<and> negative) (scanDigits 0 ds))
          else None)"

fun natBytes :: "nat \<Rightarrow> byte list" where
  "natBytes n = (if n = 0 then [] else natBytes (n div 256) @ [of_nat (n mod 256)])"

declare natBytes.simps [simp del]

definition bigInt_Bytes :: "bigInt \<Rightarrow> byte list" where
  "bigInt_Bytes z = natBytes (absval z)"

section \<open>The 256-bit fee codec \<^verbatim>\<open>uint256ToHex\<close>\<close>

text \<open>
  Modelled from the spec: \<^verbatim>\<open>bytesutil.ReverseByteOrder\<close> (package
  \<^verbatim>\<open>encoding/bytesutil\<close>) is not among the sources; it is the byte reversal the
  specification names.
\<close>

definition ReverseByteOrder :: "byte list \<Rightarrow> byte list" where
  "ReverseByteOrder input = rev input"

text \<open>
  \<^verbatim>\<open>bytesutil.PadTo\<close> of the same package is not among the sources either, and the
  specification does not say on which side it pads.  It is therefore a parameter
  \<open>PadTo\<close> of the codec: every statement below holds for whatever function it is.

  \<^verbatim>\<open>
  func uint256ToHex(num string) ([]byte, error) {
      uint256, ok := new(big.Int).SetString(num, 10)
      if !ok { return nil, errors.New("could not parse Uint256") }
      bigEndian := uint256.Bytes()
      if len(bigEndian) > 32 { return nil, errors.New("number too big for Uint256") }
      return bytesutil2.ReverseByteOrder(bytesutil2.PadTo(bigEndian, 32)), nil
  }
  \<close>
\<close>

definition uint256ToHex :: "(byte list \<Rightarrow> nat \<Rightarrow> byte list) \<Rightarrow> string \<Rightarrow> go_error + byte list" where
  "uint256ToHex PadTo num =
     (case bigInt_SetString10 num of
        None \<Rightarrow> Inl (errors_New ''could not parse Uint256'')
      | Some uint256 \<Rightarrow>
          let bigEndian = bigInt_Bytes uint256 in
          if length bigEndian > 32 then Inl (errors_New ''number too big for Uint256'')
          else Inr (ReverseByteOrder (PadTo bigEndian 32)))"

text \<open>
  Modelled from the spec: \<^verbatim>\<open>bytesutil.PadTo\<close> is not among the sources, and the
  specification only says "padded to 32 bytes".  These are the two functions it can be:
  a slice shorter than the size gets its zero bytes in front, or behind.  They serve to
  show how the result of the codec depends on the choice; no property of the codec
  below assumes either.
\<close>

definition PadTo_front :: "byte list \<Rightarrow> nat \<Rightarrow> byte list" where
  "PadTo_front b n = (if length b \<ge> n then b else replicate (n - length b) 0 @ b)"

definition PadTo_back :: "byte list \<Rightarrow> nat \<Rightarrow> byte list" where
  "PadTo_back b n = (if length b \<ge> n then b else b @ replicate (n - length b) 0)"

section \<open>The execution payload of a Bellatrix block, in both directions\<close>

text \<open>
  \<open>ExecutionPayload\<close> is the JSON struct (every field a string), and
  \<open>enginev1_ExecutionPayload\<close> the protobuf struct of package \<^verbatim>\<open>enginev1\<close>; the
  fields of the latter carry the prefix \<open>pb_\<close> here, since both structs use the same
  field names in Go.
\<close>

record ExecutionPayload =
  ParentHash :: string
  FeeRecipient :: string
  StateRoot :: string
  ReceiptsRoot :: string
  LogsBloom :: string
  PrevRandao :: string
  BlockNumber :: string
  GasLimit :: string
  GasUsed :: string
  Timestamp :: string
  ExtraData :: string
  BaseFeePerGas :: string
  BlockHash :: string
  Transactions :: "string list"

record enginev1_ExecutionPayload =
  pb_ParentHash :: "byte list"
  pb_FeeRecipient :: "byte list"
  pb_StateRoot :: "byte list"
  pb_ReceiptsRoot :: "byte list"
  pb_LogsBloom :: "byte list"
  pb_PrevRandao :: "byte list"
  pb_BlockNumber :: "64 word"
  pb_GasLimit :: "64 word"
  pb_GasUsed :: "64 word"
  pb_Timestamp :: "64 word"
  pb_ExtraData :: "byte list"
  pb_BaseFeePerGas :: "byte list"
  pb_BlockHash :: "byte list"
  pb_Transactions :: "byte list list"

text \<open>
  The loop over the transactions in \<^verbatim>\<open>(*SignedBeaconBlockBellatrix).ToGeneric\<close>:
  \<^verbatim>\<open>
  for i, tx := range b.Message.Body.ExecutionPayload.Transactions {
      payloadTxs[i], err = hexutil.Decode(tx)
      if err != nil { return nil, errors.Wrapf(err, "could not decode ...Transactions[%d]", i) }
  }
  \<close>
\<close>

fun decodeTransactions :: "nat \<Rightarrow> string list \<Rightarrow> go_error + byte list list" where
  "decodeTransactions i [] = Inr []"
| "decodeTransactions i (tx # txs) =
     (case hexutil_Decode tx of
        Inl err \<Rightarrow>
          Inl (errors_Wrap err
                 (''could not decode b.Message.Body.ExecutionPayload.Transactions['' @ Sprintf_d i @ '']''))
      | Inr v \<Rightarrow> bindE (decodeTransactions (Suc i) txs) (\<lambda>vs. Inr (v # vs)))"

text \<open>
  The execution-payload part of \<^verbatim>\<open>(*SignedBeaconBlockBellatrix).ToGeneric\<close>, field by
  field in the order of the source; \<open>p\<close> stands for
  \<^verbatim>\<open>b.Message.Body.ExecutionPayload\<close>.
\<close>

definition ToGeneric_ExecutionPayload ::
  "(byte list \<Rightarrow> nat \<Rightarrow> byte list) \<Rightarrow> ExecutionPayload \<Rightarrow> go_error + enginev1_ExecutionPayload" where
  "ToGeneric_ExecutionPayload PadTo p =
     bindE (wrapErr (hexutil_Decode (ParentHash p)) ''could not decode b.Message.Body.ExecutionPayload.ParentHash'') (\<lambda>payloadParentHash.
     bindE (wrapErr (hexutil_Decode (FeeRecipient p)) ''could not decode b.Message.Body.ExecutionPayload.FeeRecipient'') (\<lambda>payloadFeeRecipient.
     bindE (wrapErr (hexutil_Decode (StateRoot p)) ''could not decode b.Message.Body.ExecutionPayload.StateRoot'') (\<lambda>payloadStateRoot.
     bindE (wrapErr (hexutil_Decode (ReceiptsRoot p)) ''could not decode b.Message.Body.ExecutionPayload.ReceiptsRoot'') (\<lambda>payloadReceiptsRoot.
     bindE (wrapErr (hexutil_Decode (LogsBloom p)) ''could not decode b.Message.Body.ExecutionPayload.LogsBloom'') (\<lambda>payloadLogsBloom.
     bindE (wrapErr (hexutil_Decode (PrevRandao p)) ''could not decode b.Message.Body.ExecutionPayload.PrevRandao'') (\<lambda>payloadPrevRandao.
     bindE (wrapErr (strconv_ParseUint (BlockNumber p)) ''could not decode b.Message.Body.ExecutionPayload.BlockNumber'') (\<lambda>payloadBlockNumber.
     bindE (wrapErr (strconv_ParseUint (GasLimit p)) ''could not decode b.Message.Body.ExecutionPayload.GasLimit'') (\<lambda>payloadGasLimit.
     bindE (wrapErr (strconv_ParseUint (GasUsed p)) ''could not decode b.Message.Body.ExecutionPayload.GasUsed'') (\<lambda>payloadGasUsed.
     bindE (wrapErr (strconv_ParseUint (Timestamp p)) ''could not decode b.Message.Body.ExecutionPayload.Timestamp'') (\<lambda>payloadTimestamp.
     bindE (wrapErr (hexutil_Decode (ExtraData p)) ''could not decode b.Message.Body.ExecutionPayload.ExtraData'') (\<lambda>payloadExtraData.
     bindE (wrapErr (uint256ToHex PadTo (BaseFeePerGas p)) ''could not decode b.Message.Body.ExecutionPayload.BaseFeePerGas'') (\<lambda>payloadBaseFeePerGas.
     bindE (wrapErr (hexutil_Decode (BlockHash p)) ''could not decode b.Message.Body.ExecutionPayload.BlockHash'') (\<lambda>payloadBlockHash.
     bindE (decodeTransactions 0 (Transactions p)) (\<lambda>payloadTxs.
     Inr \<lparr> pb_ParentHash = payloadParentHash,
           pb_FeeRecipient = payloadFeeRecipient,
           pb_StateRoot = payloadStateRoot,
           pb_ReceiptsRoot = payloadReceiptsRoot,
           pb_LogsBloom = payloadLogsBloom,
           pb_PrevRandao = payloadPrevRandao,
           pb_BlockNumber = payloadBlockNumber,
           pb_GasLimit = payloadGasLimit,
           pb_GasUsed = payloadGasUsed,
           pb_Timestamp = payloadTimestamp,
           pb_ExtraData = payloadExtraData,
           pb_BaseFeePerGas = payloadBaseFeePerGas,
           pb_BlockHash = payloadBlockHash,
           pb_Transactions = payloadTxs \<rparr>))))))))))))))"

text \<open>
  The execution-payload part of \<^verbatim>\<open>convertInternalBeaconBlockBellatrix\<close>; \<open>e\<close> stands
  for \<^verbatim>\<open>b.Body.ExecutionPayload\<close>.  This part of the converter has no error path.
\<close>

definition convertInternal_ExecutionPayload :: "enginev1_ExecutionPayload \<Rightarrow> ExecutionPayload" where
  "convertInternal_ExecutionPayload e =
     \<lparr> ParentHash = hexutil_Encode (pb_ParentHash e),
       FeeRecipient = hexutil_Encode (pb_FeeRecipient e),
       StateRoot = hexutil_Encode (pb_StateRoot e),
       ReceiptsRoot = hexutil_Encode (pb_ReceiptsRoot e),
       LogsBloom = hexutil_Encode (pb_LogsBloom e),
       PrevRandao = hexutil_Encode (pb_PrevRandao e),
       BlockNumber = Sprintf_d (unat (pb_BlockNumber e)),
       GasLimit = Sprintf_d (unat (pb_GasLimit e)),
       GasUsed = Sprintf_d (unat (pb_GasUsed e)),
       Timestamp = Sprintf_d (unat (pb_Timestamp e)),
       ExtraData = hexutil_Encode (pb_ExtraData e),
       BaseFeePerGas = hexutil_Encode (pb_BaseFeePerGas e),
       BlockHash = hexutil_Encode (pb_BlockHash e),
       Transactions = map hexutil_Encode (pb_Transactions e) \<rparr>"

text \<open>
  A well-formed wire payload: 32-byte hashes and roots, a 20-byte fee recipient, a
  256-byte logs bloom, no extra data, no transactions, and a base fee of 7 wei per gas.
\<close>

definition hex0 :: "nat \<Rightarrow> string" where
  "hex0 n = ''0x'' @ replicate (2 * n) CHR ''0''"

definition samplePayload :: ExecutionPayload where
  "samplePayload =
     \<lparr> ParentHash = hex0 32,
       FeeRecipient = hex0 20,
       StateRoot = hex0 32,
       ReceiptsRoot = hex0 32,
       LogsBloom = hex0 256,
       PrevRandao = hex0 32,
       BlockNumber = ''1'',
       GasLimit = ''30000000'',
       GasUsed = ''21000'',
       Timestamp = ''1700000000'',
       ExtraData = ''0x'',
       BaseFeePerGas = ''7'',
       BlockHash = hex0 32,
       Transactions = [] \<rparr>"

section \<open>The publish handlers of \<^verbatim>\<open>handlers.go\<close>\<close>

text \<open>
  The handlers only ever use the text of an error (\<^verbatim>\<open>err.Error()\<close>), so in this layer
  an error is its text: a function returning \<^verbatim>\<open>error\<close> returns \<open>string option\<close>
  (\<open>None\<close> for \<^verbatim>\<open>nil\<close>), and one returning \<^verbatim>\<open>(T, error)\<close> returns
  \<open>string + T\<close>.  \<^verbatim>\<open>errors.Wrap(err, msg).Error()\<close> is \<^verbatim>\<open>msg + ": " + err.Error()\<close>.
\<close>

definition Wrap :: "string \<Rightarrow> string \<Rightarrow> string" where
  "Wrap err msg = msg @ '': '' @ err"

text \<open>\<^verbatim>\<open>strings.Contains(s, substr)\<close>, to speak about what a message contains.\<close>

fun Contains :: "string \<Rightarrow> string \<Rightarrow> bool" where
  "Contains [] substr = (substr = [])"
| "Contains (c # s) substr = (prefix substr (c # s) \<or> Contains s substr)"

record DefaultErrorJson =
  Message :: string
  Code :: nat

abbreviation StatusBadRequest :: nat where
  "StatusBadRequest \<equiv> 400"

abbreviation StatusInternalServerError :: nat where
  "StatusInternalServerError \<equiv> 500"

abbreviation StatusServiceUnavailable :: nat where
  "StatusServiceUnavailable \<equiv> 503"

definition broadcastValidationQueryParam :: string where
  "broadcastValidationQueryParam = ''broadcast_validation''"

definition broadcastValidationConsensus :: string where
  "broadcastValidationConsensus = ''consensus''"

definition broadcastValidationConsensusAndEquivocation :: string where
  "broadcastValidationConsensusAndEquivocation = ''consensus_and_equivocation''"

text \<open>
  The request: what \<^verbatim>\<open>io.ReadAll(r.Body)\<close> returns, and the query values of the URL
  (a key that is absent has no values).  \<^verbatim>\<open>url.Values.Get\<close> returns the first value
  of a key, or the empty string.
\<close>

record Request =
  Body :: "string + byte list"
  URL_Query :: "string \<Rightarrow> string list"

definition Values_Get :: "(string \<Rightarrow> string list) \<Rightarrow> string \<Rightarrow> string" where
  "Values_Get v key = (case v key of [] \<Rightarrow> [] | x # xs \<Rightarrow> x)"

text \<open>
  The wire schemas the publish handlers try, named as the Go types are, and the tagged
  union \<^verbatim>\<open>eth.GenericSignedBeaconBlock\<close>; \<open>'b\<close> is the type of the protobuf
  blocks it carries.
\<close>

datatype schema =
    SignedBeaconBlockContentsDeneb
  | SignedBeaconBlockCapella
  | SignedBeaconBlockBellatrix
  | SignedBeaconBlockAltair
  | SignedBeaconBlock
  | SignedBlindedBeaconBlockContentsDeneb
  | SignedBlindedBeaconBlockCapella
  | SignedBlindedBeaconBlockBellatrix

datatype 'b GenericSignedBeaconBlock =
    GenericSignedBeaconBlock_Phase0 'b
  | GenericSignedBeaconBlock_Altair 'b
  | GenericSignedBeaconBlock_Bellatrix 'b
  | GenericSignedBeaconBlock_BlindedBellatrix 'b
  | GenericSignedBeaconBlock_Capella 'b
  | GenericSignedBeaconBlock_BlindedCapella 'b
  | GenericSignedBeaconBlock_Deneb 'b
  | GenericSignedBeaconBlock_BlindedDeneb 'b

text \<open>
  Every call a handler makes to a collaborator or a codec is recorded, in order, so that
  "is called", "is never called" and "is tried before" are statements about a list.
\<close>

datatype 'b event =
    Call_UnmarshalSSZ schema
  | Call_unmarshalStrict schema
  | Call_validate_Struct schema
  | Call_ToGeneric schema
  | Call_State "byte list"
  | Call_ExecuteStateTransition
  | Call_HighestReceivedBlockSlot
  | Call_ProposeBeaconBlock "'b GenericSignedBeaconBlock"
  | Call_GetBeaconBlock
  | Call_IsOptimistic

text \<open>
  The collaborators of \<^verbatim>\<open>*Server\<close> and the codecs, whose code lies outside this
  package, are the fields of \<open>Server\<close>: each field is the answer the collaborator gives
  during the request.  \<open>'w\<close> is the type of decoded wire structs, \<open>'sb\<close> the
  \<^verbatim>\<open>interfaces.ReadOnlySignedBeaconBlock\<close> and \<open>'s\<close> the beacon state.
  \<^item> \<open>UnmarshalSSZ s\<close> is \<^verbatim>\<open>UnmarshalSSZ\<close> of the schema \<open>s\<close>, and
    \<open>migration s\<close> the function of package \<^verbatim>\<open>migration\<close> the handler applies to a
    decoded \<open>s\<close>;
  \<^item> \<open>json_Decode s\<close> is \<^verbatim>\<open>json.Decoder.Decode\<close> into a \<open>s\<close> with unknown fields
    disallowed, \<open>validate_Struct\<close> is \<^verbatim>\<open>validate.Struct\<close>, and \<open>ToGeneric s\<close> the
    method \<^verbatim>\<open>ToGeneric\<close> of \<open>s\<close> in \<^verbatim>\<open>structs_conversions.go\<close>.
\<close>

record ('w, 'b, 'sb, 's) Server =
  UnmarshalSSZ :: "schema \<Rightarrow> byte list \<Rightarrow> string + 'w"
  migration :: "schema \<Rightarrow> 'w \<Rightarrow> string + 'b"
  json_Decode :: "schema \<Rightarrow> byte list \<Rightarrow> string + 'w"
  validate_Struct :: "schema \<Rightarrow> 'w \<Rightarrow> string option"
  ToGeneric :: "schema \<Rightarrow> 'w \<Rightarrow> string + 'b GenericSignedBeaconBlock"
  NewSignedBeaconBlock :: "'b GenericSignedBeaconBlock \<Rightarrow> string + 'sb"
  Block_ParentRoot :: "'sb \<Rightarrow> byte list"
  Block_Slot :: "'sb \<Rightarrow> 64 word"
  Stater_State :: "byte list \<Rightarrow> string + 's"
  ExecuteStateTransition :: "'s \<Rightarrow> 'sb \<Rightarrow> string + 's"
  HighestReceivedBlockSlot :: "64 word"
  ProposeBeaconBlock :: "'b GenericSignedBeaconBlock \<Rightarrow> string option"

type_synonym 'b outcome = "'b event list \<times> DefaultErrorJson option"

text \<open>
  A handler returns the calls it made and the error it wrote with
  \<^verbatim>\<open>network.WriteError\<close>, if any (\<open>None\<close>: it returned without writing an error).
\<close>

definition prepend :: "'e list \<Rightarrow> 'e list \<times> 'r \<Rightarrow> 'e list \<times> 'r" where
  "prepend evs res = (evs @ fst res, snd res)"

subsection \<open>The broadcast validation gate\<close>

definition validateEquivocation :: "('w, 'b, 'sb, 's) Server \<Rightarrow> 'sb \<Rightarrow> 'b event list \<times> string option" where
  "validateEquivocation bs blk =
     ([Call_HighestReceivedBlockSlot],
      if HighestReceivedBlockSlot bs = Block_Slot bs blk
      then Some (''block for slot '' @ Sprintf_d (unat (Block_Slot bs blk)) @ '' already exists in fork choice'')
      else None)"

definition validateConsensus :: "('w, 'b, 'sb, 's) Server \<Rightarrow> 'sb \<Rightarrow> 'b event list \<times> string option" where
  "validateConsensus bs blk =
     (let parentRoot = Block_ParentRoot bs blk in
      case Stater_State bs parentRoot of
        Inl err \<Rightarrow> ([Call_State parentRoot], Some (Wrap err ''could not get parent state''))
      | Inr parentState \<Rightarrow>
          (case ExecuteStateTransition bs parentState blk of
             Inl err \<Rightarrow>
               ([Call_State parentRoot, Call_ExecuteStateTransition],
                Some (Wrap err ''could not execute state transition''))
           | Inr post \<Rightarrow> ([Call_State parentRoot, Call_ExecuteStateTransition], None)))"

definition validateBroadcast ::
  "('w, 'b, 'sb, 's) Server \<Rightarrow> Request \<Rightarrow> 'b GenericSignedBeaconBlock \<Rightarrow> 'b event list \<times> string option" where
  "validateBroadcast bs r blk =
     (let param = Values_Get (URL_Query r) broadcastValidationQueryParam in
      if param = broadcastValidationConsensus then
        (case NewSignedBeaconBlock bs blk of
           Inl err \<Rightarrow> ([], Some (Wrap err ''could not create signed beacon block''))
         | Inr b \<Rightarrow>
             (case validateConsensus bs b of
                (evs, Some err) \<Rightarrow> (evs, Some (Wrap err ''consensus validation failed''))
              | (evs, None) \<Rightarrow> (evs, None)))
      else if param = broadcastValidationConsensusAndEquivocation then
        (case NewSignedBeaconBlock bs blk of
           Inl err \<Rightarrow> ([], Some (Wrap err ''could not create signed beacon block''))
         | Inr b \<Rightarrow>
             (case validateConsensus bs b of
                (evs, Some err) \<Rightarrow> (evs, Some (Wrap err ''consensus validation failed''))
              | (evs, None) \<Rightarrow>
                  (case validateEquivocation bs b of
                     (evs', Some err) \<Rightarrow> (evs @ evs', Some (Wrap err ''equivocation validation failed''))
                   | (evs', None) \<Rightarrow> (evs @ evs', None))))
      else ([], None))"

definition proposeBlock :: "('w, 'b, 'sb, 's) Server \<Rightarrow> 'b GenericSignedBeaconBlock \<Rightarrow> 'b outcome" where
  "proposeBlock bs blk =
     ([Call_ProposeBeaconBlock blk],
      case ProposeBeaconBlock bs blk of
        Some err \<Rightarrow> Some \<lparr> Message = err, Code = StatusInternalServerError \<rparr>
      | None \<Rightarrow> None)"

text \<open>
  The block every branch of the four publish handlers ends with:
  \<^verbatim>\<open>
  if err = bs.validateBroadcast(r, genericBlock); err != nil {
      network.WriteError(w, &network.DefaultErrorJson{Message: err.Error(), Code: http.StatusBadRequest})
      return
  }
  bs.proposeBlock(r.Context(), w, genericBlock)
  return
  \<close>
\<close>

definition validateThenPropose ::
  "('w, 'b, 'sb, 's) Server \<Rightarrow> Request \<Rightarrow> 'b GenericSignedBeaconBlock \<Rightarrow> 'b outcome" where
  "validateThenPropose bs r genericBlock =
     (case validateBroadcast bs r genericBlock of
        (evs, Some err) \<Rightarrow> (evs, Some \<lparr> Message = err, Code = StatusBadRequest \<rparr>)
      | (evs, None) \<Rightarrow> prepend evs (proposeBlock bs genericBlock))"

subsection \<open>Binary (SSZ) publish\<close>

text \<open>
  The union tag each SSZ branch wraps its migrated block in, as written in the branch
  (\<^verbatim>\<open>&eth.GenericSignedBeaconBlock_Deneb{Deneb: v1BlockContents}\<close> and so on).
\<close>

fun genericOf :: "schema \<Rightarrow> 'b \<Rightarrow> 'b GenericSignedBeaconBlock" where
  "genericOf SignedBeaconBlockContentsDeneb = GenericSignedBeaconBlock_Deneb"
| "genericOf SignedBeaconBlockCapella = GenericSignedBeaconBlock_Capella"
| "genericOf SignedBeaconBlockBellatrix = GenericSignedBeaconBlock_Bellatrix"
| "genericOf SignedBeaconBlockAltair = GenericSignedBeaconBlock_Altair"
| "genericOf SignedBeaconBlock = GenericSignedBeaconBlock_Phase0"
| "genericOf SignedBlindedBeaconBlockContentsDeneb = GenericSignedBeaconBlock_BlindedDeneb"
| "genericOf SignedBlindedBeaconBlockCapella = GenericSignedBeaconBlock_BlindedCapella"
| "genericOf SignedBlindedBeaconBlockBellatrix = GenericSignedBeaconBlock_BlindedBellatrix"

text \<open>
  What an SSZ branch does once \<^verbatim>\<open>UnmarshalSSZ\<close> has succeeded:
  \<^verbatim>\<open>
  v1block, err := migration.CapellaToV1Alpha1SignedBlock(capellaBlock)
  if err != nil {
      network.WriteError(w, &network.DefaultErrorJson{
          Message: "Could not decode request body into consensus block: " + err.Error(),
          Code:    http.StatusBadRequest})
      return
  }
  genericBlock := &eth.GenericSignedBeaconBlock{Block: &eth.GenericSignedBeaconBlock_Capella{Capella: v1block}}
  ... validateBroadcast, proposeBlock ...
  \<close>
\<close>

definition migrateAndForward ::
  "('w, 'b, 'sb, 's) Server \<Rightarrow> Request \<Rightarrow> schema \<Rightarrow> 'w \<Rightarrow> 'b outcome" where
  "migrateAndForward bs r sch decoded =
     (case migration bs sch decoded of
        Inl err \<Rightarrow>
          ([], Some \<lparr> Message = ''Could not decode request body into consensus block: '' @ err,
                     Code = StatusBadRequest \<rparr>)
      | Inr v1block \<Rightarrow> validateThenPropose bs r (genericOf sch v1block))"

text \<open>
  One \<^verbatim>\<open>if err := x.UnmarshalSSZ(body); err == nil { ... return }\<close> block; \<open>otherwise\<close>
  is the rest of the handler, reached when the decode fails.
\<close>

definition trySSZ ::
  "('w, 'b, 'sb, 's) Server \<Rightarrow> Request \<Rightarrow> byte list \<Rightarrow> schema \<Rightarrow> 'b outcome \<Rightarrow> 'b outcome" where
  "trySSZ bs r body sch otherwise =
     prepend [Call_UnmarshalSSZ sch]
       (case UnmarshalSSZ bs sch body of
          Inr decoded \<Rightarrow> migrateAndForward bs r sch decoded
        | Inl err \<Rightarrow> otherwise)"

definition notAValidBlockType :: "'b outcome" where
  "notAValidBlockType =
     ([], Some \<lparr> Message = ''Body does not represent a valid block type'', Code = StatusBadRequest \<rparr>)"

definition publishBlockV2SSZ :: "('w, 'b, 'sb, 's) Server \<Rightarrow> Request \<Rightarrow> 'b outcome" where
  "publishBlockV2SSZ bs r =
     (case Body r of
        Inl err \<Rightarrow>
          ([], Some \<lparr> Message = ''Could not read request body'', Code = StatusInternalServerError \<rparr>)
      | Inr body \<Rightarrow>
          trySSZ bs r body SignedBeaconBlockContentsDeneb
         (trySSZ bs r body SignedBeaconBlockCapella
         (trySSZ bs r body SignedBeaconBlockBellatrix
         (trySSZ bs r body SignedBeaconBlockAltair
         (trySSZ bs r body SignedBeaconBlock
          notAValidBlockType)))))"

definition publishBlindedBlockV2SSZ :: "('w, 'b, 'sb, 's) Server \<Rightarrow> Request \<Rightarrow> 'b outcome" where
  "publishBlindedBlockV2SSZ bs r =
     (case Body r of
        Inl err \<Rightarrow>
          ([], Some \<lparr> Message = ''Could not read request body: '' @ err,
                     Code = StatusInternalServerError \<rparr>)
      | Inr body \<Rightarrow>
          trySSZ bs r body SignedBlindedBeaconBlockContentsDeneb
         (trySSZ bs r body SignedBlindedBeaconBlockCapella
         (trySSZ bs r body SignedBlindedBeaconBlockBellatrix
         (trySSZ bs r body SignedBeaconBlockAltair
         (trySSZ bs r body SignedBeaconBlock
          notAValidBlockType)))))"

subsection \<open>JSON publish\<close>

text \<open>
  \<^verbatim>\<open>
  func unmarshalStrict(data []byte, v interface{}) error {
      dec := json.NewDecoder(bytes.NewReader(data))
      dec.DisallowUnknownFields()
      return dec.Decode(v)
  }
  \<close>
\<close>

definition unmarshalStrict :: "('w, 'b, 'sb, 's) Server \<Rightarrow> schema \<Rightarrow> byte list \<Rightarrow> string + 'w" where
  "unmarshalStrict bs sch data = json_Decode bs sch data"

text \<open>
  What a JSON branch does once the body has decoded and validated:
  \<^verbatim>\<open>
  consensusBlock, err := capellaBlock.ToGeneric()
  if err != nil {
      network.WriteError(w, &network.DefaultErrorJson{
          Message: "Could not decode request body into consensus block: " + err.Error(),
          Code:    http.StatusBadRequest})
      return
  }
  ... validateBroadcast, proposeBlock ...
  \<close>
\<close>

definition convertAndForward ::
  "('w, 'b, 'sb, 's) Server \<Rightarrow> Request \<Rightarrow> schema \<Rightarrow> 'w \<Rightarrow> 'b outcome" where
  "convertAndForward bs r sch decoded =
     prepend [Call_ToGeneric sch]
       (case ToGeneric bs sch decoded of
          Inl err \<Rightarrow>
            ([], Some \<lparr> Message = ''Could not decode request body into consensus block: '' @ err,
                       Code = StatusBadRequest \<rparr>)
        | Inr consensusBlock \<Rightarrow> validateThenPropose bs r consensusBlock)"

text \<open>
  One block
  \<^verbatim>\<open>
  if err = unmarshalStrict(body, &x); err == nil {
      if err = validate.Struct(x); err == nil { ... return }
  }
  \<close>
  with \<open>otherwise\<close> the rest of the handler, reached when either test fails.
\<close>

definition tryJSON ::
  "('w, 'b, 'sb, 's) Server \<Rightarrow> Request \<Rightarrow> byte list \<Rightarrow> schema \<Rightarrow> 'b outcome \<Rightarrow> 'b outcome" where
  "tryJSON bs r body sch otherwise =
     prepend [Call_unmarshalStrict sch]
       (case unmarshalStrict bs sch body of
          Inl err \<Rightarrow> otherwise
        | Inr decoded \<Rightarrow>
            prepend [Call_validate_Struct sch]
              (case validate_Struct bs sch decoded of
                 Some err \<Rightarrow> otherwise
               | None \<Rightarrow> convertAndForward bs r sch decoded))"

definition publishBlockV2 :: "('w, 'b, 'sb, 's) Server \<Rightarrow> Request \<Rightarrow> 'b outcome" where
  "publishBlockV2 bs r =
     (case Body r of
        Inl err \<Rightarrow>
          ([], Some \<lparr> Message = ''Could not read request body'', Code = StatusInternalServerError \<rparr>)
      | Inr body \<Rightarrow>
          tryJSON bs r body SignedBeaconBlockContentsDeneb
         (tryJSON bs r body SignedBeaconBlockCapella
         (tryJSON bs r body SignedBeaconBlockBellatrix
         (tryJSON bs r body SignedBeaconBlockAltair
         (tryJSON bs r body SignedBeaconBlock
          notAValidBlockType)))))"

definition publishBlindedBlockV2 :: "('w, 'b, 'sb, 's) Server \<Rightarrow> Request \<Rightarrow> 'b outcome" where
  "publishBlindedBlockV2 bs r =
     (case Body r of
        Inl err \<Rightarrow>
          ([], Some \<lparr> Message = ''Could not read request body'', Code = StatusInternalServerError \<rparr>)
      | Inr body \<Rightarrow>
          tryJSON bs r body SignedBlindedBeaconBlockContentsDeneb
         (tryJSON bs r body SignedBlindedBeaconBlockCapella
         (tryJSON bs r body SignedBlindedBeaconBlockBellatrix
         (tryJSON bs r body SignedBeaconBlockAltair
         (tryJSON bs r body SignedBeaconBlock
          notAValidBlockType)))))"

text \<open>The order in which the full-block and the blinded-block handlers try the schemas.\<close>

definition blockSchemas :: "schema list" where
  "blockSchemas =
     [SignedBeaconBlockContentsDeneb, SignedBeaconBlockCapella, SignedBeaconBlockBellatrix,
      SignedBeaconBlockAltair, SignedBeaconBlock]"

definition blindedBlockSchemas :: "schema list" where
  "blindedBlockSchemas =
     [SignedBlindedBeaconBlockContentsDeneb, SignedBlindedBeaconBlockCapella,
      SignedBlindedBeaconBlockBellatrix, SignedBeaconBlockAltair, SignedBeaconBlock]"

text \<open>
  The two tests the properties speak of: a schema decodes the binary body; a schema
  matches the JSON body when the strict decode succeeds and the struct validator
  accepts what was decoded.
\<close>

definition sszDecodes :: "('w, 'b, 'sb, 's) Server \<Rightarrow> byte list \<Rightarrow> schema \<Rightarrow> bool" where
  "sszDecodes bs body sch = (case UnmarshalSSZ bs sch body of Inl err \<Rightarrow> False | Inr decoded \<Rightarrow> True)"

definition jsonMatches :: "('w, 'b, 'sb, 's) Server \<Rightarrow> byte list \<Rightarrow> schema \<Rightarrow> bool" where
  "jsonMatches bs body sch =
     (case unmarshalStrict bs sch body of
        Inl err \<Rightarrow> False
      | Inr decoded \<Rightarrow> (case validate_Struct bs sch decoded of Some err \<Rightarrow> False | None \<Rightarrow> True))"

text \<open>The calls one JSON attempt makes before it falls through or converts.\<close>

definition jsonAttempt :: "('w, 'b, 'sb, 's) Server \<Rightarrow> byte list \<Rightarrow> schema \<Rightarrow> 'b event list" where
  "jsonAttempt bs body sch =
     (case unmarshalStrict bs sch body of
        Inl err \<Rightarrow> [Call_unmarshalStrict sch]
      | Inr decoded \<Rightarrow> [Call_unmarshalStrict sch, Call_validate_Struct sch])"

definition isPropose :: "'b event \<Rightarrow> bool" where
  "isPropose e = (case e of Call_ProposeBeaconBlock blk \<Rightarrow> True | _ \<Rightarrow> False)"


subsection \<open>The dispatch as one loop\<close>

text \<open>
  The specification describes the dispatch as an ordered list of schemas tried by a
  single loop.  \<open>dispatchSSZ\<close> and \<open>dispatchJSON\<close> are that loop, written after the
  specification's words; the handlers above are the unrolled code, and the two are
  compared below.
\<close>

fun dispatchSSZ ::
  "('w, 'b, 'sb, 's) Server \<Rightarrow> Request \<Rightarrow> byte list \<Rightarrow> schema list \<Rightarrow> 'b outcome" where
  "dispatchSSZ bs r body [] = notAValidBlockType"
| "dispatchSSZ bs r body (sch # rest) = trySSZ bs r body sch (dispatchSSZ bs r body rest)"

fun dispatchJSON ::
  "('w, 'b, 'sb, 's) Server \<Rightarrow> Request \<Rightarrow> byte list \<Rightarrow> schema list \<Rightarrow> 'b outcome" where
  "dispatchJSON bs r body [] = notAValidBlockType"
| "dispatchJSON bs r body (sch # rest) = tryJSON bs r body sch (dispatchJSON bs r body rest)"

section \<open>Block production: \<^verbatim>\<open>produceBlockV3\<close>\<close>

text \<open>
  The sources hold two revisions of \<^verbatim>\<open>handlers.go\<close>.  They agree on the publish
  handlers and on the broadcast validation; \<^verbatim>\<open>produceBlockV3\<close> is taken from the
  revision in which it is complete (it sets the two headers, answers SSZ requests and
  covers the Capella and Deneb blocks).

  \<^verbatim>\<open>eth.GenericBeaconBlock\<close> is what \<^verbatim>\<open>GetBeaconBlock\<close> answers: the unsigned block as
  a tagged union, whether it is blinded, and the payload value.
\<close>

datatype 'b GenericBeaconBlock_Block =
    GenericBeaconBlock_Phase0 'b
  | GenericBeaconBlock_Altair 'b
  | GenericBeaconBlock_Bellatrix 'b
  | GenericBeaconBlock_BlindedBellatrix 'b
  | GenericBeaconBlock_Capella 'b
  | GenericBeaconBlock_BlindedCapella 'b
  | GenericBeaconBlock_Deneb 'b
  | GenericBeaconBlock_BlindedDeneb 'b

record 'b GenericBeaconBlock =
  Block :: "'b GenericBeaconBlock_Block"
  IsBlinded :: bool
  PayloadValue :: "64 word"

text \<open>
  The constants of package \<^verbatim>\<open>runtime/version\<close> and the two header names of package
  \<^verbatim>\<open>api\<close> are declared outside the sources; they are kept as names.  The field
  \<open>Version\<close> of a response holds the constant whose \<^verbatim>\<open>version.String\<close> the handler
  writes.
\<close>

datatype version = Phase0 | Altair | Bellatrix | Capella | Deneb

datatype header = ExecutionPayloadBlindedHeader | ExecutionPayloadValueHeader

text \<open>
  The eight response structs of \<^verbatim>\<open>api_structs.go\<close> differ in the type of \<open>Data\<close>
  only; \<open>'w\<close> is the type of converted JSON blocks.
\<close>

record 'w ProduceBlockV3Response =
  Version :: version
  ExecutionPayloadBlinded :: bool
  ExeuctionPayloadValue :: string
  Data :: 'w

datatype 'w written =
    WriteError DefaultErrorJson
  | WriteJson "'w ProduceBlockV3Response"
  | WriteSsz "byte list" string

text \<open>
  The response writer after the handler has returned: the headers it set and what it
  wrote (\<open>None\<close>: the handler returned without writing a body).
\<close>

record 'w ResponseWriter =
  Header :: "header \<Rightarrow> string option"
  Written :: "'w written option"

text \<open>\<^verbatim>\<open>fmt.Sprintf("%v", b)\<close> of a boolean.\<close>

definition Sprintf_v :: "bool \<Rightarrow> string" where
  "Sprintf_v b = (if b then ''true'' else ''false'')"

text \<open>
  The collaborators of the production path: \<open>SszRequested\<close> is the answer of
  \<^verbatim>\<open>network.SszRequested(r)\<close>, \<open>GetBeaconBlock\<close> that of the validator server for
  the request, \<open>IsOptimistic\<close> that of the optimistic-mode fetcher; \<open>MarshalSSZ\<close> and
  \<open>convertInternal\<close> are, for each variant of the union, the \<^verbatim>\<open>MarshalSSZ\<close> method
  and the \<^verbatim>\<open>convertInternal...\<close> function the handler applies to that variant, and
  \<open>validate_Block\<close> is \<^verbatim>\<open>validate.Struct\<close> on the converted block.
\<close>

record ('b, 'w) ProduceServer =
  SszRequested :: "bool \<times> string option"
  GetBeaconBlock :: "string + 'b GenericBeaconBlock"
  IsOptimistic :: "string + bool"
  MarshalSSZ :: "'b GenericBeaconBlock_Block \<Rightarrow> string + byte list"
  convertInternal :: "'b GenericBeaconBlock_Block \<Rightarrow> string + 'w"
  validate_Block :: "'w \<Rightarrow> string option"

type_synonym ('b, 'w) produced = "'b event list \<times> 'w ResponseWriter"

definition setPayloadHeaders ::
  "'b GenericBeaconBlock \<Rightarrow> (header \<Rightarrow> string option) \<Rightarrow> (header \<Rightarrow> string option)" where
  "setPayloadHeaders v1alpha1resp hdr =
     hdr(ExecutionPayloadBlindedHeader \<mapsto> Sprintf_v (IsBlinded v1alpha1resp),
         ExecutionPayloadValueHeader \<mapsto> Sprintf_d (unat (PayloadValue v1alpha1resp)))"

text \<open>
  One block of \<^verbatim>\<open>produceBlockV3\<close>, here for Capella:
  \<^verbatim>\<open>
  capellaBlock, ok := v1alpha1resp.Block.(*eth.GenericBeaconBlock_Capella)
  if ok {
      w.Header().Set(api.ExecutionPayloadBlindedHeader, fmt.Sprintf("%v", v1alpha1resp.IsBlinded))
      w.Header().Set(api.ExecutionPayloadValueHeader, fmt.Sprintf("%d", v1alpha1resp.PayloadValue))
      if isSSZ {
          sszResp, err := capellaBlock.Capella.MarshalSSZ()
          if err != nil { WriteError(500, err.Error()); return }
          network.WriteSsz(w, sszResp, "capellaBlock.ssz")
          return
      }
      block, err := convertInternalBeaconBlockCapella(capellaBlock.Capella)
      if err != nil { WriteError(500, err.Error()); return }
      if err = validate.Struct(block); err == nil {
          network.WriteJson(w, &CapellaProduceBlockV3Response{
              Version:                 version.String(version.Capella),
              ExecutionPayloadBlinded: false,
              ExeuctionPayloadValue:   fmt.Sprintf("%d", v1alpha1resp.PayloadValue),
              Data:                    block,
          })
          return
      }
  }
  \<close>
  \<open>ok\<close> is the result of the type assertion, \<open>ver\<close>, \<open>blinded\<close> and \<open>fileName\<close>
  are the three literals of the block, \<open>hdr\<close> the headers set so far, and \<open>otherwise\<close>
  the rest of the handler: it is reached when the assertion fails and also when the
  validator rejects the converted block.
\<close>

definition produceCase ::
  "('b, 'w) ProduceServer \<Rightarrow> bool \<Rightarrow> 'b GenericBeaconBlock \<Rightarrow> bool \<Rightarrow> version \<Rightarrow> bool \<Rightarrow> string
     \<Rightarrow> (header \<Rightarrow> string option) \<Rightarrow> ((header \<Rightarrow> string option) \<Rightarrow> ('b, 'w) produced)
     \<Rightarrow> ('b, 'w) produced" where
  "produceCase bs isSSZ v1alpha1resp ok ver blinded fileName hdr otherwise =
     (if ok then
        (let hdr' = setPayloadHeaders v1alpha1resp hdr in
         if isSSZ then
           (case MarshalSSZ bs (Block v1alpha1resp) of
              Inl err \<Rightarrow>
                ([], \<lparr> Header = hdr',
                       Written = Some (WriteError \<lparr> Message = err, Code = StatusInternalServerError \<rparr>) \<rparr>)
            | Inr sszResp \<Rightarrow> ([], \<lparr> Header = hdr', Written = Some (WriteSsz sszResp fileName) \<rparr>))
         else
           (case convertInternal bs (Block v1alpha1resp) of
              Inl err \<Rightarrow>
                ([], \<lparr> Header = hdr',
                       Written = Some (WriteError \<lparr> Message = err, Code = StatusInternalServerError \<rparr>) \<rparr>)
            | Inr block \<Rightarrow>
                (case validate_Block bs block of
                   None \<Rightarrow>
                     ([], \<lparr> Header = hdr',
                            Written = Some (WriteJson
                              \<lparr> Version = ver,
                                ExecutionPayloadBlinded = blinded,
                                ExeuctionPayloadValue = Sprintf_d (unat (PayloadValue v1alpha1resp)),
                                Data = block \<rparr>) \<rparr>)
                 | Some err \<Rightarrow> otherwise hdr')))
      else otherwise hdr)"

text \<open>
  The guard between the Altair block and the blinded Bellatrix block:
  \<^verbatim>\<open>
  optimistic, err := bs.OptimisticModeFetcher.IsOptimistic(r.Context())
  if err != nil {
      WriteError(500, errors.Wrap(err, "Could not determine if the node is a optimistic node").Error())
      return
  }
  if optimistic {
      WriteError(503, "The node is currently optimistic and cannot serve validators")
      return
  }
  \<close>
\<close>

definition optimisticGuard ::
  "('b, 'w) ProduceServer \<Rightarrow> (header \<Rightarrow> string option) \<Rightarrow> ((header \<Rightarrow> string option) \<Rightarrow> ('b, 'w) produced)
     \<Rightarrow> ('b, 'w) produced" where
  "optimisticGuard bs hdr otherwise =
     prepend [Call_IsOptimistic]
       (case IsOptimistic bs of
          Inl err \<Rightarrow>
            ([], \<lparr> Header = hdr,
                   Written = Some (WriteError
                     \<lparr> Message = Wrap err ''Could not determine if the node is a optimistic node'',
                       Code = StatusInternalServerError \<rparr>) \<rparr>)
        | Inr optimistic \<Rightarrow>
            if optimistic then
              ([], \<lparr> Header = hdr,
                     Written = Some (WriteError
                       \<lparr> Message = ''The node is currently optimistic and cannot serve validators'',
                         Code = StatusServiceUnavailable \<rparr>) \<rparr>)
            else otherwise hdr)"

text \<open>The type assertions \<^verbatim>\<open>v1alpha1resp.Block.(*eth.GenericBeaconBlock_X)\<close>.\<close>

fun isPhase0 :: "'b GenericBeaconBlock_Block \<Rightarrow> bool" where
  "isPhase0 (GenericBeaconBlock_Phase0 b) = True"
| "isPhase0 other = False"

fun isAltair :: "'b GenericBeaconBlock_Block \<Rightarrow> bool" where
  "isAltair (GenericBeaconBlock_Altair b) = True"
| "isAltair other = False"

fun isBellatrix :: "'b GenericBeaconBlock_Block \<Rightarrow> bool" where
  "isBellatrix (GenericBeaconBlock_Bellatrix b) = True"
| "isBellatrix other = False"

fun isBlindedBellatrix :: "'b GenericBeaconBlock_Block \<Rightarrow> bool" where
  "isBlindedBellatrix (GenericBeaconBlock_BlindedBellatrix b) = True"
| "isBlindedBellatrix other = False"

fun isCapella :: "'b GenericBeaconBlock_Block \<Rightarrow> bool" where
  "isCapella (GenericBeaconBlock_Capella b) = True"
| "isCapella other = False"

fun isBlindedCapella :: "'b GenericBeaconBlock_Block \<Rightarrow> bool" where
  "isBlindedCapella (GenericBeaconBlock_BlindedCapella b) = True"
| "isBlindedCapella other = False"

fun isDeneb :: "'b GenericBeaconBlock_Block \<Rightarrow> bool" where
  "isDeneb (GenericBeaconBlock_Deneb b) = True"
| "isDeneb other = False"

fun isBlindedDeneb :: "'b GenericBeaconBlock_Block \<Rightarrow> bool" where
  "isBlindedDeneb (GenericBeaconBlock_BlindedDeneb b) = True"
| "isBlindedDeneb other = False"

text \<open>
  \<^verbatim>\<open>produceBlockV3\<close>: a failed \<^verbatim>\<open>SszRequested\<close> is logged and read as "not SSZ"; a
  failed \<^verbatim>\<open>GetBeaconBlock\<close> is a 500; then the blocks follow in the order of the
  source, each with its own three literals.
\<close>

definition produceBlockV3 :: "('b, 'w) ProduceServer \<Rightarrow> ('b, 'w) produced" where
  "produceBlockV3 bs =
     (let isSSZ = (case SszRequested bs of (requested, Some err) \<Rightarrow> False | (requested, None) \<Rightarrow> requested) in
      prepend [Call_GetBeaconBlock]
       (case GetBeaconBlock bs of
          Inl err \<Rightarrow>
            ([], \<lparr> Header = Map.empty,
                   Written = Some (WriteError \<lparr> Message = err, Code = StatusInternalServerError \<rparr>) \<rparr>)
        | Inr v1alpha1resp \<Rightarrow>
            produceCase bs isSSZ v1alpha1resp (isPhase0 (Block v1alpha1resp))
              Phase0 False ''phase0Block.ssz'' Map.empty (\<lambda>hdr.
            produceCase bs isSSZ v1alpha1resp (isAltair (Block v1alpha1resp))
              Altair False ''altairBlock.ssz'' hdr (\<lambda>hdr.
            optimisticGuard bs hdr (\<lambda>hdr.
            produceCase bs isSSZ v1alpha1resp (isBlindedBellatrix (Block v1alpha1resp))
              Bellatrix True ''blindeBellatrixBlock.ssz'' hdr (\<lambda>hdr.
            produceCase bs isSSZ v1alpha1resp (isBellatrix (Block v1alpha1resp))
              Bellatrix False ''bellatrixBlock.ssz'' hdr (\<lambda>hdr.
            produceCase bs isSSZ v1alpha1resp (isBlindedCapella (Block v1alpha1resp))
              Capella True ''blindedCapellaBlock.ssz'' hdr (\<lambda>hdr.
            produceCase bs isSSZ v1alpha1resp (isCapella (Block v1alpha1resp))
              Capella False ''capellaBlock.ssz'' hdr (\<lambda>hdr.
            produceCase bs isSSZ v1alpha1resp (isBlindedDeneb (Block v1alpha1resp))
              Deneb True ''blindedDenebBlockContents.ssz'' hdr (\<lambda>hdr.
            produceCase bs isSSZ v1alpha1resp (isDeneb (Block v1alpha1resp))
              Deneb True ''denebBlockContents.ssz'' hdr (\<lambda>hdr.
            ([], \<lparr> Header = hdr, Written = None \<rparr>))))))))))))"

text \<open>
  What "blinded" means for a block of the union, and which variants are of fork Bellatrix
  or later.
\<close>

fun blindedVariant :: "'b GenericBeaconBlock_Block \<Rightarrow> bool" where
  "blindedVariant (GenericBeaconBlock_BlindedBellatrix b) = True"
| "blindedVariant (GenericBeaconBlock_BlindedCapella b) = True"
| "blindedVariant (GenericBeaconBlock_BlindedDeneb b) = True"
| "blindedVariant other = False"

definition preBellatrix :: "'b GenericBeaconBlock_Block \<Rightarrow> bool" where
  "preBellatrix blk = (isPhase0 blk \<or> isAltair blk)"

definition consultsOptimistic :: "'b event list \<Rightarrow> bool" where
  "consultsOptimistic evs = (Call_IsOptimistic \<in> set evs)"

section \<open>A sample node\<close>

text \<open>
  A concrete server, to run the handlers on: decoded structs and blocks are byte strings,
  a read-only block is its slot and parent root, the state is trivial.  Only the one-byte
  body \<open>[1]\<close> decodes, as an Altair block in SSZ and as an Altair or a Phase0 block in
  JSON; the struct validator accepts Phase0 only; the block is at slot 5, which is also
  the highest slot fork choice has received.
\<close>

definition sampleServer :: "(byte list, byte list, 64 word \<times> byte list, unit) Server" where
  "sampleServer =
     \<lparr> UnmarshalSSZ = (\<lambda>sch body.
         if sch = SignedBeaconBlockAltair \<and> body = [1] then Inr body else Inl ''incorrect size''),
       migration = (\<lambda>sch decoded. Inr decoded),
       json_Decode = (\<lambda>sch body.
         if (sch = SignedBeaconBlockAltair \<or> sch = SignedBeaconBlock) \<and> body = [1] then Inr body
         else Inl ''json: unknown field''),
       validate_Struct = (\<lambda>sch decoded.
         if sch = SignedBeaconBlock then None else Some ''Field validation for SyncAggregate failed''),
       ToGeneric = (\<lambda>sch decoded. Inr (GenericSignedBeaconBlock_Phase0 decoded)),
       NewSignedBeaconBlock = (\<lambda>blk. Inr (5, [0])),
       Block_ParentRoot = snd,
       Block_Slot = fst,
       Stater_State = (\<lambda>root. Inr ()),
       ExecuteStateTransition = (\<lambda>st blk. Inr ()),
       HighestReceivedBlockSlot = 5,
       ProposeBeaconBlock = (\<lambda>blk. None) \<rparr>"

definition sampleRequest :: "string list \<Rightarrow> Request" where
  "sampleRequest values =
     \<lparr> Body = Inr [1],
       URL_Query = (\<lambda>key. if key = broadcastValidationQueryParam then values else []) \<rparr>"

text \<open>
  A producer whose validator server answers with a full (not blinded) Deneb block, asked
  for JSON, on a node that is not optimistic.
\<close>

definition sampleProducer :: "(byte list, string) ProduceServer" where
  "sampleProducer =
     \<lparr> SszRequested = (False, None),
       GetBeaconBlock = Inr \<lparr> Block = GenericBeaconBlock_Deneb [], IsBlinded = False, PayloadValue = 0 \<rparr>,
       IsOptimistic = Inr False,
       MarshalSSZ = (\<lambda>blk. Inr []),
       convertInternal = (\<lambda>blk. Inr ''block contents''),
       validate_Block = (\<lambda>block. None) \<rparr>"

text \<open>
  A producer whose validator server answers with a Phase0 block, asked for JSON, whose
  struct validator rejects the converted block, on a node that is optimistic.
\<close>

definition rejectingProducer :: "(byte list, string) ProduceServer" where
  "rejectingProducer =
     \<lparr> SszRequested = (False, None),
       GetBeaconBlock = Inr \<lparr> Block = GenericBeaconBlock_Phase0 [], IsBlinded = False, PayloadValue = 0 \<rparr>,
       IsOptimistic = Inr True,
       MarshalSSZ = (\<lambda>blk. Inr []),
       convertInternal = (\<lambda>blk. Inr ''block''),
       validate_Block = (\<lambda>block. Some ''Field validation for Slot failed on the required tag'') \<rparr>"

text \<open>
  A server for which \<^verbatim>\<open>UnmarshalSSZ\<close> succeeds for the given schemas only (and for any
  body); everything else is as in the sample server.
\<close>

definition decodingServer :: "schema list \<Rightarrow> (byte list, byte list, 64 word \<times> byte list, unit) Server" where
  "decodingServer schs =
     sampleServer \<lparr> UnmarshalSSZ := (\<lambda>sch body. if sch \<in> set schs then Inr body else Inl ''incorrect size'') \<rparr>"

text \<open>Whether the handler answered with the block itself, as JSON or as SSZ.\<close>

definition returnsBlock :: "'w ResponseWriter \<Rightarrow> bool" where
  "returnsBlock w =
     (case Written w of
        Some (WriteJson resp) \<Rightarrow> True
      | Some (WriteSsz sszResp fileName) \<Rightarrow> True
      | Some (WriteError errJson) \<Rightarrow> False
      | None \<Rightarrow> False)"

text \<open>Whether the request asked for SSZ, as \<^verbatim>\<open>produceBlockV3\<close> reads it.\<close>

definition wantsSSZ :: "('b, 'w) ProduceServer \<Rightarrow> bool" where
  "wantsSSZ bs = (case SszRequested bs of (requested, Some err) \<Rightarrow> False | (requested, None) \<Rightarrow> requested)"

section \<open>Properties of the fee codec and of the payload converters\<close>

lemma hex_DecodeString_zeros:
  "hex_DecodeString (replicate (2 * n) CHR ''0'') = Inr (replicate n 0)"
  by (induction n) (simp_all add: fromHexChar_def bindE_def)

lemma hexutil_Decode_hex0: "hexutil_Decode (hex0 n) = Inr (replicate n 0)"
  by (simp add: hexutil_Decode_def hex0_def has0xPrefix_def hex_DecodeString_zeros)

lemma hexutil_Decode_0x: "hexutil_Decode ''0x'' = Inr []"
  by (simp add: hexutil_Decode_def has0xPrefix_def)

lemma uint256ToHex_7: "uint256ToHex PadTo ''7'' = Inr (ReverseByteOrder (PadTo [7] 32))"
  by (simp add: uint256ToHex_def bigInt_SetString10_def scanSign_def isDigit_def digitVal_def
      bigInt_Bytes_def natBytes.simps)

lemma ParseUint_samples:
  "strconv_ParseUint ''1'' = Inr 1"
  "strconv_ParseUint ''30000000'' = Inr 30000000"
  "strconv_ParseUint ''21000'' = Inr 21000"
  "strconv_ParseUint ''1700000000'' = Inr 1700000000"
  by (simp_all add: strconv_ParseUint_def bindE_def isDigit_def digitVal_def maxUint64_def)

text \<open>The sample payload is accepted by the wire-to-internal direction.\<close>

lemma ToGeneric_samplePayload:
  "ToGeneric_ExecutionPayload PadTo samplePayload =
     Inr \<lparr> pb_ParentHash = replicate 32 0,
           pb_FeeRecipient = replicate 20 0,
           pb_StateRoot = replicate 32 0,
           pb_ReceiptsRoot = replicate 32 0,
           pb_LogsBloom = replicate 256 0,
           pb_PrevRandao = replicate 32 0,
           pb_BlockNumber = 1,
           pb_GasLimit = 30000000,
           pb_GasUsed = 21000,
           pb_Timestamp = 1700000000,
           pb_ExtraData = [],
           pb_BaseFeePerGas = ReverseByteOrder (PadTo [7] 32),
           pb_BlockHash = replicate 32 0,
           pb_Transactions = [] \<rparr>"
  by (simp add: ToGeneric_ExecutionPayload_def samplePayload_def bindE_def wrapErr_def
      hexutil_Decode_hex0 hexutil_Decode_0x uint256ToHex_7 ParseUint_samples)

text \<open>
  Whatever \<^verbatim>\<open>SetString\<close> accepts has decimal digits only after its first byte, so it is
  never the output of \<^verbatim>\<open>hexutil.Encode\<close>, whose second byte is \<^verbatim>\<open>x\<close>.
\<close>

lemma SetString_tail_digits:
  assumes "bigInt_SetString10 s = Some z"
  shows "list_all isDigit (tl s)"
  using assms
  by (cases s) (auto simp: bigInt_SetString10_def scanSign_def split: if_splits)

lemma uint256ToHex_never_hex:
  assumes "uint256ToHex PadTo s = Inr bs"
  shows "hexutil_Encode b \<noteq> s"
proof
  assume eq: "hexutil_Encode b = s"
  from assms obtain z where "bigInt_SetString10 s = Some z"
    by (auto simp: uint256ToHex_def split: option.splits)
  then have digits: "list_all isDigit (tl s)" by (rule SetString_tail_digits)
  from eq have "tl s = CHR ''x'' # hex_EncodeToString b"
    by (auto simp: hexutil_Encode_def)
  with digits have "isDigit CHR ''x''" by simp
  then show False by (simp add: isDigit_def)
qed

lemma bindE_InrE:
  assumes "bindE res f = Inr y"
  obtains v where "res = Inr v" "f v = Inr y"
  using assms by (auto simp: bindE_def split: sum.splits)

lemma wrapErr_Inr: "wrapErr res msg = Inr v \<Longrightarrow> res = Inr v"
  by (auto simp: wrapErr_def split: sum.splits)

lemma ToGeneric_BaseFeePerGas:
  assumes "ToGeneric_ExecutionPayload PadTo p = Inr e"
  shows "uint256ToHex PadTo (BaseFeePerGas p) = Inr (pb_BaseFeePerGas e)"
  using assms unfolding ToGeneric_ExecutionPayload_def
  by (elim bindE_InrE) (auto dest: wrapErr_Inr)

text \<open>
  No wire payload at all survives the round trip: whenever the wire-to-internal
  direction accepts \<open>p\<close>, the internal-to-wire direction gives back something else.
\<close>

lemma ExecutionPayload_round_trip_never:
  assumes "ToGeneric_ExecutionPayload PadTo p = Inr e"
  shows "convertInternal_ExecutionPayload e \<noteq> p"
proof
  assume "convertInternal_ExecutionPayload e = p"
  then have "BaseFeePerGas p = hexutil_Encode (pb_BaseFeePerGas e)"
    by (auto simp: convertInternal_ExecutionPayload_def)
  with uint256ToHex_never_hex[OF ToGeneric_BaseFeePerGas[OF assms], of "pb_BaseFeePerGas e"]
  show False by simp
qed

text \<open>
  Claim C1 (round-trip law, in particular for \<^verbatim>\<open>BaseFeePerGas\<close>).  The claim asks that
  decoding a wire value and encoding it again gives the value back.  On the sample
  payload the code does not: \<^verbatim>\<open>ToGeneric\<close> reads the base fee \<^verbatim>\<open>"7"\<close> as a decimal
  number, and \<^verbatim>\<open>convertInternalBeaconBlockBellatrix\<close> writes the resulting bytes with
  \<^verbatim>\<open>hexutil.Encode\<close>, a string starting with \<^verbatim>\<open>0x\<close>; so the base fee, and with it the
  payload, differs from what was decoded.
\<close>

theorem BaseFeePerGas_round_trip_broken:
  "\<exists>e. ToGeneric_ExecutionPayload PadTo samplePayload = Inr e
     \<and> BaseFeePerGas (convertInternal_ExecutionPayload e) = hexutil_Encode (ReverseByteOrder (PadTo [7] 32))
     \<and> BaseFeePerGas (convertInternal_ExecutionPayload e) \<noteq> BaseFeePerGas samplePayload
     \<and> convertInternal_ExecutionPayload e \<noteq> samplePayload"
proof -
  obtain e where e: "ToGeneric_ExecutionPayload PadTo samplePayload = Inr e"
    and fee: "pb_BaseFeePerGas e = ReverseByteOrder (PadTo [7] 32)"
    by (simp add: ToGeneric_samplePayload)
  have enc: "BaseFeePerGas (convertInternal_ExecutionPayload e) = hexutil_Encode (ReverseByteOrder (PadTo [7] 32))"
    by (simp add: convertInternal_ExecutionPayload_def fee)
  have wire: "BaseFeePerGas samplePayload = ''7''"
    by (simp add: samplePayload_def)
  have ne: "BaseFeePerGas (convertInternal_ExecutionPayload e) \<noteq> BaseFeePerGas samplePayload"
    unfolding enc wire by (simp add: hexutil_Encode_def)
  then have "convertInternal_ExecutionPayload e \<noteq> samplePayload"
    by (rule contrapos_nn) simp
  with e enc ne show ?thesis by blast
qed

text \<open>
  What the codec accepts: \<^verbatim>\<open>Bytes()\<close> has at most \<open>k\<close> bytes exactly for the
  magnitudes below \<open>256 ^ k\<close>, so the length test lets through the magnitudes below
  \<open>2 ^ 256\<close>, whatever the sign that was read.
\<close>

lemma length_natBytes: "length (natBytes n) \<le> k \<longleftrightarrow> n < 256 ^ k"
proof (induction n arbitrary: k rule: natBytes.induct)
  case (1 n)
  show ?case
  proof (cases "n = 0")
    case True
    then show ?thesis by (simp add: natBytes.simps)
  next
    case False
    show ?thesis
    proof (cases k)
      case 0
      with False show ?thesis by (simp add: natBytes.simps)
    next
      case (Suc j)
      have "length (natBytes n) \<le> Suc j \<longleftrightarrow> length (natBytes (n div 256)) \<le> j"
        using False by (subst natBytes.simps) simp
      also have "\<dots> \<longleftrightarrow> n div 256 < 256 ^ j"
        using "1.IH" [OF False] .
      also have "\<dots> \<longleftrightarrow> n < 256 ^ Suc j"
        by (simp add: div_less_iff_less_mult mult.commute)
      finally show ?thesis using Suc by simp
    qed
  qed
qed

lemma uint256ToHex_range:
  "uint256ToHex PadTo num =
     (case bigInt_SetString10 num of
        None \<Rightarrow> Inl (errors_New ''could not parse Uint256'')
      | Some z \<Rightarrow>
          if absval z < 2 ^ 256 then Inr (ReverseByteOrder (PadTo (natBytes (absval z)) 32))
          else Inl (errors_New ''number too big for Uint256''))"
proof -
  have "length (natBytes n) > 32 \<longleftrightarrow> \<not> n < 2 ^ 256" for n
    using length_natBytes [of n 32] by (simp add: not_le [symmetric] del: not_le)
  then show ?thesis
    by (simp add: uint256ToHex_def bigInt_Bytes_def Let_def split: option.splits)
qed

text \<open>
  A minus sign in front of a decimal number changes nothing for \<^verbatim>\<open>uint256ToHex\<close>:
  \<^verbatim>\<open>Bytes()\<close> drops the sign that \<^verbatim>\<open>SetString\<close> has read.
\<close>

lemma uint256ToHex_ignores_minus:
  assumes "ds \<noteq> []" "list_all isDigit ds"
  shows "uint256ToHex PadTo (CHR ''-'' # ds) = uint256ToHex PadTo ds"
proof -
  from assms obtain d rest where ds: "ds = d # rest" and d: "isDigit d"
    by (cases ds) auto
  from d have "d \<noteq> CHR ''-''" "d \<noteq> CHR ''+''"
    by (auto simp: isDigit_def)
  with assms ds show ?thesis
    by (simp add: uint256ToHex_def bigInt_SetString10_def scanSign_def bigInt_Bytes_def)
qed

text \<open>
  The byte order of the result depends on \<^verbatim>\<open>PadTo\<close>, which is applied before the
  reversal: for 258, whose big-endian bytes are 1 and 2, zeros padded in front give the
  32-byte little-endian encoding, and zeros padded behind give the bytes 2 and 1 at the
  end of the slice, which is not the little-endian encoding of 258.
\<close>

lemma uint256ToHex_258_front:
  "uint256ToHex PadTo_front ''258'' = Inr ([2, 1] @ replicate 30 0)"
  by (simp add: uint256ToHex_def bigInt_SetString10_def scanSign_def isDigit_def digitVal_def
      bigInt_Bytes_def natBytes.simps PadTo_front_def ReverseByteOrder_def)

lemma uint256ToHex_258_back:
  "uint256ToHex PadTo_back ''258'' = Inr (replicate 30 0 @ [2, 1])"
  by (simp add: uint256ToHex_def bigInt_SetString10_def scanSign_def isDigit_def digitVal_def
      bigInt_Bytes_def natBytes.simps PadTo_back_def ReverseByteOrder_def)

text \<open>
  Claim C7 (the fee codec accepts exactly the unsigned decimal numbers of at most 256
  bits, and fails on negative numbers).  On the string \<^verbatim>\<open>"-1"\<close> the code does not fail:
  it returns, without an error, the very bytes it returns for \<^verbatim>\<open>"1"\<close>.
\<close>

theorem uint256ToHex_accepts_negative:
  "uint256ToHex PadTo ''-1'' = Inr (ReverseByteOrder (PadTo [1] 32))
   \<and> uint256ToHex PadTo ''-1'' = uint256ToHex PadTo ''1''"
  by (simp add: uint256ToHex_def bigInt_SetString10_def scanSign_def isDigit_def digitVal_def
      bigInt_Bytes_def natBytes.simps)

section \<open>Properties of the broadcast validation gate\<close>

lemma prepend_pair [simp]: "prepend evs (a, b) = (evs @ a, b)"
  by (simp add: prepend_def)

lemma fst_prepend [simp]: "fst (prepend evs res) = evs @ fst res"
  by (simp add: prepend_def)

lemma snd_prepend [simp]: "snd (prepend evs res) = snd res"
  by (simp add: prepend_def)

lemma Contains_prefix: "prefix sub s \<Longrightarrow> Contains s sub"
  by (cases s) auto

lemma Contains_append: "Contains (a @ sub @ b) sub"
proof (induction a)
  case Nil
  show ?case by (rule Contains_prefix) simp
next
  case (Cons c a)
  then show ?case by simp
qed

lemma validateBroadcast_other:
  assumes "Values_Get (URL_Query r) broadcastValidationQueryParam \<noteq> broadcastValidationConsensus"
    and "Values_Get (URL_Query r) broadcastValidationQueryParam \<noteq> broadcastValidationConsensusAndEquivocation"
  shows "validateBroadcast bs r blk = ([], None)"
  using assms by (simp add: validateBroadcast_def)

lemma Values_Get_absent: "v key = [] \<Longrightarrow> Values_Get v key = []"
  by (simp add: Values_Get_def)

text \<open>
  Claim C6 (the default policy is a no-op).  When the query parameter
  \<^verbatim>\<open>broadcast_validation\<close> is absent, or has any value other than \<^verbatim>\<open>consensus\<close> and
  \<^verbatim>\<open>consensus_and_equivocation\<close>, \<^verbatim>\<open>validateBroadcast\<close> returns \<^verbatim>\<open>nil\<close> having
  called no collaborator at all (neither the state store, nor the state transition, nor
  fork choice), and the handler goes on to the propose RPC at once: the only call made is
  \<^verbatim>\<open>ProposeBeaconBlock\<close>.
\<close>

theorem validateBroadcast_default_is_noop:
  assumes "URL_Query r broadcastValidationQueryParam = []
           \<or> Values_Get (URL_Query r) broadcastValidationQueryParam
               \<notin> {broadcastValidationConsensus, broadcastValidationConsensusAndEquivocation}"
  shows "validateBroadcast bs r blk = ([], None)
         \<and> validateThenPropose bs r blk = proposeBlock bs blk
         \<and> fst (validateThenPropose bs r blk) = [Call_ProposeBeaconBlock blk]"
proof -
  from assms have ne:
    "Values_Get (URL_Query r) broadcastValidationQueryParam \<noteq> broadcastValidationConsensus"
    "Values_Get (URL_Query r) broadcastValidationQueryParam \<noteq> broadcastValidationConsensusAndEquivocation"
    by (auto simp: Values_Get_absent broadcastValidationConsensus_def
        broadcastValidationConsensusAndEquivocation_def)
  then have vb: "validateBroadcast bs r blk = ([], None)"
    by (rule validateBroadcast_other)
  then have "validateThenPropose bs r blk = proposeBlock bs blk"
    by (simp add: validateThenPropose_def prepend_def)
  with vb show ?thesis by (simp add: proposeBlock_def)
qed

theorem validateBroadcast_default_is_noop_witness:
  "URL_Query (sampleRequest []) broadcastValidationQueryParam = []
   \<and> validateBroadcast sampleServer (sampleRequest []) (GenericSignedBeaconBlock_Phase0 [1]) = ([], None)
   \<and> fst (validateThenPropose sampleServer (sampleRequest []) (GenericSignedBeaconBlock_Phase0 [1]))
       = [Call_ProposeBeaconBlock (GenericSignedBeaconBlock_Phase0 [1])]"
proof -
  have absent: "URL_Query (sampleRequest []) broadcastValidationQueryParam = []"
    by (simp add: sampleRequest_def)
  from absent validateBroadcast_default_is_noop [OF disjI1 [OF absent], of sampleServer "GenericSignedBeaconBlock_Phase0 [1]"]
  show ?thesis by blast
qed

lemma validateConsensus_cases:
  "validateConsensus bs b =
     (case Stater_State bs (Block_ParentRoot bs b) of
        Inl err \<Rightarrow> ([Call_State (Block_ParentRoot bs b)], Some (''could not get parent state: '' @ err))
      | Inr parentState \<Rightarrow>
          (case ExecuteStateTransition bs parentState b of
             Inl err \<Rightarrow>
               ([Call_State (Block_ParentRoot bs b), Call_ExecuteStateTransition],
                Some (''could not execute state transition: '' @ err))
           | Inr post \<Rightarrow> ([Call_State (Block_ParentRoot bs b), Call_ExecuteStateTransition], None)))"
  by (simp add: validateConsensus_def Wrap_def split: sum.splits)

lemma validateBroadcast_consensus:
  assumes "Values_Get (URL_Query r) broadcastValidationQueryParam = broadcastValidationConsensus"
    and "NewSignedBeaconBlock bs blk = Inr b"
  shows "validateBroadcast bs r blk =
     (case validateConsensus bs b of
        (evs, Some err) \<Rightarrow> (evs, Some (''consensus validation failed: '' @ err))
      | (evs, None) \<Rightarrow> (evs, None))"
  using assms by (simp add: validateBroadcast_def Wrap_def split: prod.splits option.splits)

lemma validateBroadcast_consensus_and_equivocation:
  assumes "Values_Get (URL_Query r) broadcastValidationQueryParam = broadcastValidationConsensusAndEquivocation"
    and "NewSignedBeaconBlock bs blk = Inr b"
  shows "validateBroadcast bs r blk =
     (case validateConsensus bs b of
        (evs, Some err) \<Rightarrow> (evs, Some (''consensus validation failed: '' @ err))
      | (evs, None) \<Rightarrow>
          (evs @ [Call_HighestReceivedBlockSlot],
           if HighestReceivedBlockSlot bs = Block_Slot bs b
           then Some (''equivocation validation failed: block for slot ''
                        @ Sprintf_d (unat (Block_Slot bs b)) @ '' already exists in fork choice'')
           else None))"
  using assms
  by (simp add: validateBroadcast_def validateEquivocation_def Wrap_def
      broadcastValidationConsensus_def broadcastValidationConsensusAndEquivocation_def
      split: prod.splits option.splits)

text \<open>
  Claim C4 (the equivocation gate).  With \<^verbatim>\<open>broadcast_validation=consensus_and_equivocation\<close>
  and a block that \<^verbatim>\<open>blocks.NewSignedBeaconBlock\<close> accepts, \<^verbatim>\<open>validateBroadcast\<close> runs the
  consensus check first; if that fails its error is returned and fork choice is not asked.
  If it passes, fork choice is asked for the highest received slot, and the result is the
  equivocation error exactly when that slot equals the slot of the block; the handler then
  answers 400 without calling the propose RPC.  When the slots differ the gate passes and
  the block is proposed.
\<close>

theorem validateBroadcast_equivocation_gate:
  assumes param: "Values_Get (URL_Query r) broadcastValidationQueryParam
                    = broadcastValidationConsensusAndEquivocation"
    and b: "NewSignedBeaconBlock bs blk = Inr b"
  shows
    "validateBroadcast bs r blk =
       (case validateConsensus bs b of
          (evs, Some err) \<Rightarrow> (evs, Some (''consensus validation failed: '' @ err))
        | (evs, None) \<Rightarrow>
            (evs @ [Call_HighestReceivedBlockSlot],
             if HighestReceivedBlockSlot bs = Block_Slot bs b
             then Some (''equivocation validation failed: block for slot ''
                          @ Sprintf_d (unat (Block_Slot bs b)) @ '' already exists in fork choice'')
             else None))
     \<and> (snd (validateConsensus bs b) = None \<and> HighestReceivedBlockSlot bs = Block_Slot bs b \<longrightarrow>
          validateThenPropose bs r blk =
            (fst (validateConsensus bs b) @ [Call_HighestReceivedBlockSlot],
             Some \<lparr> Message = ''equivocation validation failed: block for slot ''
                          @ Sprintf_d (unat (Block_Slot bs b)) @ '' already exists in fork choice'',
                    Code = StatusBadRequest \<rparr>))
     \<and> (snd (validateConsensus bs b) = None \<and> HighestReceivedBlockSlot bs \<noteq> Block_Slot bs b \<longrightarrow>
          validateThenPropose bs r blk =
            (fst (validateConsensus bs b) @ [Call_HighestReceivedBlockSlot, Call_ProposeBeaconBlock blk],
             snd (proposeBlock bs blk)))
     \<and> (Call_HighestReceivedBlockSlot \<in> set (fst (validateBroadcast bs r blk))
          \<longleftrightarrow> snd (validateConsensus bs b) = None)"
proof -
  note eq = validateBroadcast_consensus_and_equivocation [OF param b]
  obtain evs res where vc: "validateConsensus bs b = (evs, res)"
    by (cases "validateConsensus bs b")
  have no_fc: "Call_HighestReceivedBlockSlot \<notin> set evs"
    using vc by (auto simp: validateConsensus_cases split: sum.splits)
  show ?thesis
    using no_fc
    by (cases res)
       (simp_all add: eq vc validateThenPropose_def proposeBlock_def)
qed

theorem validateBroadcast_equivocation_gate_witness:
  "validateThenPropose sampleServer (sampleRequest [''consensus_and_equivocation''])
       (GenericSignedBeaconBlock_Phase0 [1])
     = ([Call_State [0], Call_ExecuteStateTransition, Call_HighestReceivedBlockSlot],
        Some \<lparr> Message = ''equivocation validation failed: block for slot 5 already exists in fork choice'',
               Code = StatusBadRequest \<rparr>)"
proof -
  have param: "Values_Get (URL_Query (sampleRequest [''consensus_and_equivocation'']))
                 broadcastValidationQueryParam = broadcastValidationConsensusAndEquivocation"
    by (simp add: sampleRequest_def Values_Get_def broadcastValidationConsensusAndEquivocation_def)
  have b: "NewSignedBeaconBlock sampleServer (GenericSignedBeaconBlock_Phase0 [1]) = Inr (5, [0])"
    by (simp add: sampleServer_def)
  have vc: "validateConsensus sampleServer (5, [0]) = ([Call_State [0], Call_ExecuteStateTransition], None)"
    by (simp add: validateConsensus_cases sampleServer_def)
  have slot: "HighestReceivedBlockSlot sampleServer = Block_Slot sampleServer (5, [0])"
    by (simp add: sampleServer_def)
  have five: "Sprintf_d (unat (Block_Slot sampleServer (5, [0]))) = ''5''"
    by (simp add: sampleServer_def Sprintf_d.simps digitChar_def)
  from validateBroadcast_equivocation_gate [OF param b] vc slot five show ?thesis by simp
qed

text \<open>
  Claim C5 (the consensus gate and its errors).  With \<^verbatim>\<open>broadcast_validation=consensus\<close>
  and a block that \<^verbatim>\<open>blocks.NewSignedBeaconBlock\<close> accepts, the handler fetches the state
  of the block's parent root and runs the state transition on it.  If the fetch fails the
  answer is 400 with a message containing \<^verbatim>\<open>could not get parent state\<close>, and the state
  transition is not run; if the state transition fails the answer is 400 with a message
  containing \<^verbatim>\<open>could not execute state transition\<close>; if both succeed the block is handed
  to the propose RPC.
\<close>

theorem validateBroadcast_consensus_errors:
  assumes param: "Values_Get (URL_Query r) broadcastValidationQueryParam = broadcastValidationConsensus"
    and b: "NewSignedBeaconBlock bs blk = Inr b"
  shows
    "validateThenPropose bs r blk =
       (case Stater_State bs (Block_ParentRoot bs b) of
          Inl err \<Rightarrow>
            ([Call_State (Block_ParentRoot bs b)],
             Some \<lparr> Message = ''consensus validation failed: could not get parent state: '' @ err,
                    Code = StatusBadRequest \<rparr>)
        | Inr parentState \<Rightarrow>
            (case ExecuteStateTransition bs parentState b of
               Inl err \<Rightarrow>
                 ([Call_State (Block_ParentRoot bs b), Call_ExecuteStateTransition],
                  Some \<lparr> Message = ''consensus validation failed: could not execute state transition: '' @ err,
                         Code = StatusBadRequest \<rparr>)
             | Inr post \<Rightarrow>
                 ([Call_State (Block_ParentRoot bs b), Call_ExecuteStateTransition, Call_ProposeBeaconBlock blk],
                  snd (proposeBlock bs blk))))
     \<and> Contains (''consensus validation failed: could not get parent state: '' @ err)
          ''could not get parent state''
     \<and> Contains (''consensus validation failed: could not execute state transition: '' @ err)
          ''could not execute state transition''"
proof -
  have 1: "Contains (''consensus validation failed: could not get parent state: '' @ err)
          ''could not get parent state''"
    using Contains_append [of "''consensus validation failed: ''" "''could not get parent state''" "'': '' @ err"]
    by simp
  have 2: "Contains (''consensus validation failed: could not execute state transition: '' @ err)
          ''could not execute state transition''"
    using Contains_append [of "''consensus validation failed: ''" "''could not execute state transition''" "'': '' @ err"]
    by simp
  have 3: "validateThenPropose bs r blk =
       (case Stater_State bs (Block_ParentRoot bs b) of
          Inl err \<Rightarrow>
            ([Call_State (Block_ParentRoot bs b)],
             Some \<lparr> Message = ''consensus validation failed: could not get parent state: '' @ err,
                    Code = StatusBadRequest \<rparr>)
        | Inr parentState \<Rightarrow>
            (case ExecuteStateTransition bs parentState b of
               Inl err \<Rightarrow>
                 ([Call_State (Block_ParentRoot bs b), Call_ExecuteStateTransition],
                  Some \<lparr> Message = ''consensus validation failed: could not execute state transition: '' @ err,
                         Code = StatusBadRequest \<rparr>)
             | Inr post \<Rightarrow>
                 ([Call_State (Block_ParentRoot bs b), Call_ExecuteStateTransition, Call_ProposeBeaconBlock blk],
                  snd (proposeBlock bs blk))))"
    by (simp add: validateThenPropose_def validateBroadcast_consensus [OF param b]
        validateConsensus_cases proposeBlock_def split: sum.splits)
  from 1 2 3 show ?thesis by blast
qed

theorem validateBroadcast_consensus_errors_witness:
  "validateThenPropose (sampleServer \<lparr> Stater_State := \<lambda>root. Inl ''state not found in the last 8192 state roots'' \<rparr>)
       (sampleRequest [''consensus'']) (GenericSignedBeaconBlock_Phase0 [1])
     = ([Call_State [0]],
        Some \<lparr> Message = ''consensus validation failed: could not get parent state: state not found in the last 8192 state roots'',
               Code = StatusBadRequest \<rparr>)"
proof -
  let ?bs = "sampleServer \<lparr> Stater_State := \<lambda>root. Inl ''state not found in the last 8192 state roots'' \<rparr>"
  have param: "Values_Get (URL_Query (sampleRequest [''consensus''])) broadcastValidationQueryParam
                 = broadcastValidationConsensus"
    by (simp add: sampleRequest_def Values_Get_def broadcastValidationConsensus_def)
  have b: "NewSignedBeaconBlock ?bs (GenericSignedBeaconBlock_Phase0 [1]) = Inr (5, [0])"
    by (simp add: sampleServer_def)
  have root: "Block_ParentRoot ?bs (5, [0]) = [0]"
    by (simp add: sampleServer_def)
  from validateBroadcast_consensus_errors [OF param b] root show ?thesis by simp
qed

section \<open>Properties of the publish dispatch\<close>

lemma prepend_prepend [simp]: "prepend xs (prepend ys res) = prepend (xs @ ys) res"
  by (simp add: prepend_def)

lemma prepend_Nil [simp]: "prepend [] res = res"
  by (simp add: prepend_def)

text \<open>A failed attempt only adds its calls; a successful one ends the dispatch.\<close>

lemma trySSZ_fail:
  "\<not> sszDecodes bs body sch \<Longrightarrow> trySSZ bs r body sch otherwise = prepend [Call_UnmarshalSSZ sch] otherwise"
  by (auto simp: trySSZ_def sszDecodes_def split: sum.splits)

lemma trySSZ_ok:
  "sszDecodes bs body sch \<Longrightarrow>
   trySSZ bs r body sch otherwise =
     prepend [Call_UnmarshalSSZ sch] (migrateAndForward bs r sch (projr (UnmarshalSSZ bs sch body)))"
  by (auto simp: trySSZ_def sszDecodes_def split: sum.splits)

lemma dispatchSSZ_first:
  "dispatchSSZ bs r body schs =
     (case find (sszDecodes bs body) schs of
        None \<Rightarrow> prepend (map Call_UnmarshalSSZ schs) notAValidBlockType
      | Some sch \<Rightarrow>
          prepend (map Call_UnmarshalSSZ (takeWhile (\<lambda>s. \<not> sszDecodes bs body s) schs @ [sch]))
            (migrateAndForward bs r sch (projr (UnmarshalSSZ bs sch body))))"
proof (induction schs)
  case Nil
  show ?case by simp
next
  case (Cons sch rest)
  show ?case
  proof (cases "sszDecodes bs body sch")
    case True
    then show ?thesis by (simp add: trySSZ_ok)
  next
    case False
    then show ?thesis by (simp add: trySSZ_fail Cons.IH split: option.splits)
  qed
qed

text \<open>What a forwarded block goes through, with the tag of each schema written out.\<close>

lemma migrateAndForward_explicit:
  "migrateAndForward bs r sch decoded =
     (case migration bs sch decoded of
        Inl err \<Rightarrow>
          ([], Some \<lparr> Message = ''Could not decode request body into consensus block: '' @ err,
                     Code = StatusBadRequest \<rparr>)
      | Inr v1block \<Rightarrow>
          (let genericBlock =
             (case sch of
                SignedBeaconBlockContentsDeneb \<Rightarrow> GenericSignedBeaconBlock_Deneb v1block
              | SignedBeaconBlockCapella \<Rightarrow> GenericSignedBeaconBlock_Capella v1block
              | SignedBeaconBlockBellatrix \<Rightarrow> GenericSignedBeaconBlock_Bellatrix v1block
              | SignedBeaconBlockAltair \<Rightarrow> GenericSignedBeaconBlock_Altair v1block
              | SignedBeaconBlock \<Rightarrow> GenericSignedBeaconBlock_Phase0 v1block
              | SignedBlindedBeaconBlockContentsDeneb \<Rightarrow> GenericSignedBeaconBlock_BlindedDeneb v1block
              | SignedBlindedBeaconBlockCapella \<Rightarrow> GenericSignedBeaconBlock_BlindedCapella v1block
              | SignedBlindedBeaconBlockBellatrix \<Rightarrow> GenericSignedBeaconBlock_BlindedBellatrix v1block)
           in case validateBroadcast bs r genericBlock of
                (evs, Some err) \<Rightarrow> (evs, Some \<lparr> Message = err, Code = StatusBadRequest \<rparr>)
              | (evs, None) \<Rightarrow>
                  (evs @ [Call_ProposeBeaconBlock genericBlock],
                   case ProposeBeaconBlock bs genericBlock of
                     Some err \<Rightarrow> Some \<lparr> Message = err, Code = StatusInternalServerError \<rparr>
                   | None \<Rightarrow> None)))"
  by (cases sch)
     (simp_all add: migrateAndForward_def validateThenPropose_def proposeBlock_def Let_def
        split: sum.splits prod.splits option.splits)

text \<open>
  Claim C2 (binary dispatch).  For a body that could be read, \<^verbatim>\<open>publishBlockV2SSZ\<close> calls
  \<^verbatim>\<open>UnmarshalSSZ\<close> for Deneb, Capella, Bellatrix, Altair and Phase0 in this order and
  stops at the first schema that decodes; no later schema is tried.  What was decoded is
  migrated (a migration error is a 400), wrapped in the union tag of that very schema,
  passed to \<^verbatim>\<open>validateBroadcast\<close> (an error is a 400) and then handed to the propose
  RPC, which is the last call.  If no schema decodes, all five have been tried, the answer
  is 400 \<^verbatim>\<open>Body does not represent a valid block type\<close>, and the propose RPC has not
  been called.  \<^verbatim>\<open>publishBlindedBlockV2SSZ\<close> does the same with the blinded schemas of
  Deneb, Capella and Bellatrix in front of Altair and Phase0.
\<close>

theorem publish_SSZ_first_decodable_schema:
  assumes "Body r = Inr body"
  shows
    "(let forwarded = (\<lambda>sch.
        case migration bs sch (projr (UnmarshalSSZ bs sch body)) of
          Inl err \<Rightarrow>
            ([], Some \<lparr> Message = ''Could not decode request body into consensus block: '' @ err,
                       Code = StatusBadRequest \<rparr>)
        | Inr v1block \<Rightarrow>
            (let genericBlock =
               (case sch of
                  SignedBeaconBlockContentsDeneb \<Rightarrow> GenericSignedBeaconBlock_Deneb v1block
                | SignedBeaconBlockCapella \<Rightarrow> GenericSignedBeaconBlock_Capella v1block
                | SignedBeaconBlockBellatrix \<Rightarrow> GenericSignedBeaconBlock_Bellatrix v1block
                | SignedBeaconBlockAltair \<Rightarrow> GenericSignedBeaconBlock_Altair v1block
                | SignedBeaconBlock \<Rightarrow> GenericSignedBeaconBlock_Phase0 v1block
                | SignedBlindedBeaconBlockContentsDeneb \<Rightarrow> GenericSignedBeaconBlock_BlindedDeneb v1block
                | SignedBlindedBeaconBlockCapella \<Rightarrow> GenericSignedBeaconBlock_BlindedCapella v1block
                | SignedBlindedBeaconBlockBellatrix \<Rightarrow> GenericSignedBeaconBlock_BlindedBellatrix v1block)
             in case validateBroadcast bs r genericBlock of
                  (evs, Some err) \<Rightarrow> (evs, Some \<lparr> Message = err, Code = StatusBadRequest \<rparr>)
                | (evs, None) \<Rightarrow>
                    (evs @ [Call_ProposeBeaconBlock genericBlock],
                     case ProposeBeaconBlock bs genericBlock of
                       Some err \<Rightarrow> Some \<lparr> Message = err, Code = StatusInternalServerError \<rparr>
                     | None \<Rightarrow> None)))
      in publishBlockV2SSZ bs r =
           (case find (sszDecodes bs body) blockSchemas of
              None \<Rightarrow>
                (map Call_UnmarshalSSZ blockSchemas,
                 Some \<lparr> Message = ''Body does not represent a valid block type'', Code = StatusBadRequest \<rparr>)
            | Some sch \<Rightarrow>
                prepend (map Call_UnmarshalSSZ (takeWhile (\<lambda>s. \<not> sszDecodes bs body s) blockSchemas @ [sch]))
                  (forwarded sch))
         \<and> publishBlindedBlockV2SSZ bs r =
           (case find (sszDecodes bs body) blindedBlockSchemas of
              None \<Rightarrow>
                (map Call_UnmarshalSSZ blindedBlockSchemas,
                 Some \<lparr> Message = ''Body does not represent a valid block type'', Code = StatusBadRequest \<rparr>)
            | Some sch \<Rightarrow>
                prepend (map Call_UnmarshalSSZ (takeWhile (\<lambda>s. \<not> sszDecodes bs body s) blindedBlockSchemas @ [sch]))
                  (forwarded sch)))"
proof -
  have 1: "publishBlockV2SSZ bs r = dispatchSSZ bs r body blockSchemas"
    by (simp add: publishBlockV2SSZ_def assms blockSchemas_def)
  have 2: "publishBlindedBlockV2SSZ bs r = dispatchSSZ bs r body blindedBlockSchemas"
    by (simp add: publishBlindedBlockV2SSZ_def assms blindedBlockSchemas_def)
  show ?thesis
    unfolding 1 2 dispatchSSZ_first
    by (cases "find (sszDecodes bs body) blockSchemas";
        cases "find (sszDecodes bs body) blindedBlockSchemas")
       (simp_all only: Let_def migrateAndForward_explicit notAValidBlockType_def option.case
          prepend_pair append_Nil2 simp_thms)
qed

lemma sszDecodes_decodingServer: "sszDecodes (decodingServer schs) body = (\<lambda>sch. sch \<in> set schs)"
  by (rule ext) (simp add: sszDecodes_def decodingServer_def)

lemma decodingServer_fields:
  "UnmarshalSSZ (decodingServer schs) sch body = (if sch \<in> set schs then Inr body else Inl ''incorrect size'')"
  "migration (decodingServer schs) sch decoded = Inr decoded"
  "ProposeBeaconBlock (decodingServer schs) blk = None"
  "validateBroadcast (decodingServer schs) (sampleRequest []) blk = ([], None)"
  by (simp_all add: decodingServer_def sampleServer_def validateBroadcast_def sampleRequest_def
      Values_Get_def broadcastValidationConsensus_def broadcastValidationConsensusAndEquivocation_def)

theorem publish_SSZ_first_decodable_schema_witness:
  "publishBlockV2SSZ (decodingServer [SignedBeaconBlockContentsDeneb, SignedBeaconBlockAltair]) (sampleRequest []) =
     ([Call_UnmarshalSSZ SignedBeaconBlockContentsDeneb,
       Call_ProposeBeaconBlock (GenericSignedBeaconBlock_Deneb [1])], None)
   \<and> publishBlindedBlockV2SSZ (decodingServer [SignedBlindedBeaconBlockCapella, SignedBeaconBlock]) (sampleRequest []) =
     ([Call_UnmarshalSSZ SignedBlindedBeaconBlockContentsDeneb,
       Call_UnmarshalSSZ SignedBlindedBeaconBlockCapella,
       Call_ProposeBeaconBlock (GenericSignedBeaconBlock_BlindedCapella [1])], None)
   \<and> publishBlockV2SSZ (decodingServer []) (sampleRequest []) =
     ([Call_UnmarshalSSZ SignedBeaconBlockContentsDeneb, Call_UnmarshalSSZ SignedBeaconBlockCapella,
       Call_UnmarshalSSZ SignedBeaconBlockBellatrix, Call_UnmarshalSSZ SignedBeaconBlockAltair,
       Call_UnmarshalSSZ SignedBeaconBlock],
      Some \<lparr> Message = ''Body does not represent a valid block type'', Code = StatusBadRequest \<rparr>)"
proof -
  have body: "Body (sampleRequest []) = Inr [1]"
    by (simp add: sampleRequest_def)
  note first = publish_SSZ_first_decodable_schema [OF body]
  from first [of "decodingServer [SignedBeaconBlockContentsDeneb, SignedBeaconBlockAltair]"]
  have a: "publishBlockV2SSZ (decodingServer [SignedBeaconBlockContentsDeneb, SignedBeaconBlockAltair]) (sampleRequest []) =
     ([Call_UnmarshalSSZ SignedBeaconBlockContentsDeneb,
       Call_ProposeBeaconBlock (GenericSignedBeaconBlock_Deneb [1])], None)"
    by (simp add: Let_def sszDecodes_decodingServer decodingServer_fields blockSchemas_def)
  from first [of "decodingServer [SignedBlindedBeaconBlockCapella, SignedBeaconBlock]"]
  have b: "publishBlindedBlockV2SSZ (decodingServer [SignedBlindedBeaconBlockCapella, SignedBeaconBlock]) (sampleRequest []) =
     ([Call_UnmarshalSSZ SignedBlindedBeaconBlockContentsDeneb,
       Call_UnmarshalSSZ SignedBlindedBeaconBlockCapella,
       Call_ProposeBeaconBlock (GenericSignedBeaconBlock_BlindedCapella [1])], None)"
    by (simp add: Let_def sszDecodes_decodingServer decodingServer_fields blindedBlockSchemas_def)
  from first [of "decodingServer []"]
  have c: "publishBlockV2SSZ (decodingServer []) (sampleRequest []) =
     ([Call_UnmarshalSSZ SignedBeaconBlockContentsDeneb, Call_UnmarshalSSZ SignedBeaconBlockCapella,
       Call_UnmarshalSSZ SignedBeaconBlockBellatrix, Call_UnmarshalSSZ SignedBeaconBlockAltair,
       Call_UnmarshalSSZ SignedBeaconBlock],
      Some \<lparr> Message = ''Body does not represent a valid block type'', Code = StatusBadRequest \<rparr>)"
    by (simp add: Let_def sszDecodes_decodingServer blockSchemas_def)
  from a b c show ?thesis by blast
qed

text \<open>
  Each schema alone, run through the two handlers: the block that reaches the propose RPC
  carries the tag of the schema that decoded it.
\<close>

lemma sampleRequest_Body: "Body (sampleRequest values) = Inr [1]"
  by (simp add: sampleRequest_def)

lemma publishBlockV2SSZ_tags:
  "publishBlockV2SSZ (decodingServer [SignedBeaconBlockContentsDeneb]) (sampleRequest []) =
     ([Call_UnmarshalSSZ SignedBeaconBlockContentsDeneb,
       Call_ProposeBeaconBlock (GenericSignedBeaconBlock_Deneb [1])], None)"
  "publishBlockV2SSZ (decodingServer [SignedBeaconBlockCapella]) (sampleRequest []) =
     ([Call_UnmarshalSSZ SignedBeaconBlockContentsDeneb, Call_UnmarshalSSZ SignedBeaconBlockCapella,
       Call_ProposeBeaconBlock (GenericSignedBeaconBlock_Capella [1])], None)"
  "publishBlockV2SSZ (decodingServer [SignedBeaconBlockBellatrix]) (sampleRequest []) =
     ([Call_UnmarshalSSZ SignedBeaconBlockContentsDeneb, Call_UnmarshalSSZ SignedBeaconBlockCapella,
       Call_UnmarshalSSZ SignedBeaconBlockBellatrix,
       Call_ProposeBeaconBlock (GenericSignedBeaconBlock_Bellatrix [1])], None)"
  "publishBlockV2SSZ (decodingServer [SignedBeaconBlockAltair]) (sampleRequest []) =
     ([Call_UnmarshalSSZ SignedBeaconBlockContentsDeneb, Call_UnmarshalSSZ SignedBeaconBlockCapella,
       Call_UnmarshalSSZ SignedBeaconBlockBellatrix, Call_UnmarshalSSZ SignedBeaconBlockAltair,
       Call_ProposeBeaconBlock (GenericSignedBeaconBlock_Altair [1])], None)"
  "publishBlockV2SSZ (decodingServer [SignedBeaconBlock]) (sampleRequest []) =
     ([Call_UnmarshalSSZ SignedBeaconBlockContentsDeneb, Call_UnmarshalSSZ SignedBeaconBlockCapella,
       Call_UnmarshalSSZ SignedBeaconBlockBellatrix, Call_UnmarshalSSZ SignedBeaconBlockAltair,
       Call_UnmarshalSSZ SignedBeaconBlock,
       Call_ProposeBeaconBlock (GenericSignedBeaconBlock_Phase0 [1])], None)"
  by (simp_all add: publishBlockV2SSZ_def trySSZ_def migrateAndForward_def validateThenPropose_def
      proposeBlock_def decodingServer_fields sampleRequest_Body)

lemma publishBlindedBlockV2SSZ_tags:
  "publishBlindedBlockV2SSZ (decodingServer [SignedBlindedBeaconBlockContentsDeneb]) (sampleRequest []) =
     ([Call_UnmarshalSSZ SignedBlindedBeaconBlockContentsDeneb,
       Call_ProposeBeaconBlock (GenericSignedBeaconBlock_BlindedDeneb [1])], None)"
  "publishBlindedBlockV2SSZ (decodingServer [SignedBlindedBeaconBlockCapella]) (sampleRequest []) =
     ([Call_UnmarshalSSZ SignedBlindedBeaconBlockContentsDeneb,
       Call_UnmarshalSSZ SignedBlindedBeaconBlockCapella,
       Call_ProposeBeaconBlock (GenericSignedBeaconBlock_BlindedCapella [1])], None)"
  "publishBlindedBlockV2SSZ (decodingServer [SignedBlindedBeaconBlockBellatrix]) (sampleRequest []) =
     ([Call_UnmarshalSSZ SignedBlindedBeaconBlockContentsDeneb,
       Call_UnmarshalSSZ SignedBlindedBeaconBlockCapella,
       Call_UnmarshalSSZ SignedBlindedBeaconBlockBellatrix,
       Call_ProposeBeaconBlock (GenericSignedBeaconBlock_BlindedBellatrix [1])], None)"
  "publishBlindedBlockV2SSZ (decodingServer [SignedBeaconBlockAltair]) (sampleRequest []) =
     ([Call_UnmarshalSSZ SignedBlindedBeaconBlockContentsDeneb,
       Call_UnmarshalSSZ SignedBlindedBeaconBlockCapella,
       Call_UnmarshalSSZ SignedBlindedBeaconBlockBellatrix, Call_UnmarshalSSZ SignedBeaconBlockAltair,
       Call_ProposeBeaconBlock (GenericSignedBeaconBlock_Altair [1])], None)"
  "publishBlindedBlockV2SSZ (decodingServer [SignedBeaconBlock]) (sampleRequest []) =
     ([Call_UnmarshalSSZ SignedBlindedBeaconBlockContentsDeneb,
       Call_UnmarshalSSZ SignedBlindedBeaconBlockCapella,
       Call_UnmarshalSSZ SignedBlindedBeaconBlockBellatrix, Call_UnmarshalSSZ SignedBeaconBlockAltair,
       Call_UnmarshalSSZ SignedBeaconBlock,
       Call_ProposeBeaconBlock (GenericSignedBeaconBlock_Phase0 [1])], None)"
  by (simp_all add: publishBlindedBlockV2SSZ_def trySSZ_def migrateAndForward_def validateThenPropose_def
      proposeBlock_def decodingServer_fields sampleRequest_Body)

lemma tryJSON_fail:
  "\<not> jsonMatches bs body sch \<Longrightarrow>
   tryJSON bs r body sch otherwise = prepend (jsonAttempt bs body sch) otherwise"
  by (auto simp: tryJSON_def jsonMatches_def jsonAttempt_def split: sum.splits option.splits)

lemma tryJSON_ok:
  "jsonMatches bs body sch \<Longrightarrow>
   tryJSON bs r body sch otherwise =
     prepend (jsonAttempt bs body sch) (convertAndForward bs r sch (projr (unmarshalStrict bs sch body)))"
  by (auto simp: tryJSON_def jsonMatches_def jsonAttempt_def split: sum.splits option.splits)

lemma dispatchJSON_first:
  "dispatchJSON bs r body schs =
     (case find (jsonMatches bs body) schs of
        None \<Rightarrow> prepend (concat (map (jsonAttempt bs body) schs)) notAValidBlockType
      | Some sch \<Rightarrow>
          prepend (concat (map (jsonAttempt bs body) (takeWhile (\<lambda>s. \<not> jsonMatches bs body s) schs @ [sch])))
            (convertAndForward bs r sch (projr (unmarshalStrict bs sch body))))"
proof (induction schs)
  case Nil
  show ?case by simp
next
  case (Cons sch rest)
  show ?case
  proof (cases "jsonMatches bs body sch")
    case True
    then show ?thesis by (simp add: tryJSON_ok)
  next
    case False
    then show ?thesis by (simp add: tryJSON_fail Cons.IH split: option.splits)
  qed
qed

lemma publishBlockV2_dispatch:
  "Body r = Inr body \<Longrightarrow> publishBlockV2 bs r = dispatchJSON bs r body blockSchemas"
  by (simp add: publishBlockV2_def blockSchemas_def)

lemma publishBlindedBlockV2_dispatch:
  "Body r = Inr body \<Longrightarrow> publishBlindedBlockV2 bs r = dispatchJSON bs r body blindedBlockSchemas"
  by (simp add: publishBlindedBlockV2_def blindedBlockSchemas_def)

lemma jsonAttempt_events:
  "e \<in> set (jsonAttempt bs body sch) \<Longrightarrow> e = Call_unmarshalStrict sch \<or> e = Call_validate_Struct sch"
  by (auto simp: jsonAttempt_def split: sum.splits)

lemma dispatchJSON_none:
  assumes "\<forall>sch \<in> set schs. \<not> jsonMatches bs body sch"
  shows "dispatchJSON bs r body schs =
           (concat (map (jsonAttempt bs body) schs),
            Some \<lparr> Message = ''Body does not represent a valid block type'', Code = StatusBadRequest \<rparr>)"
proof -
  from assms have "find (jsonMatches bs body) schs = None"
    by (simp add: find_None_iff)
  then show ?thesis
    by (simp add: dispatchJSON_first notAValidBlockType_def)
qed

lemma dispatchJSON_ToGeneric:
  assumes "Call_ToGeneric sch \<in> set (fst (dispatchJSON bs r body schs))"
  shows "jsonMatches bs body sch"
  using assms
proof (induction schs)
  case Nil
  then show ?case by (simp add: notAValidBlockType_def)
next
  case (Cons s rest)
  show ?case
  proof (cases "jsonMatches bs body s")
    case False
    with Cons show ?thesis
      by (auto simp: tryJSON_fail dest: jsonAttempt_events)
  next
    case True
    have vtp: "\<And>blk. Call_ToGeneric sch \<notin> set (fst (validateThenPropose bs r blk))"
      by (auto simp: validateThenPropose_def validateBroadcast_def validateConsensus_def
          validateEquivocation_def proposeBlock_def Let_def
          split: prod.splits option.splits sum.splits if_splits)
    from Cons.prems True have "sch = s"
      using vtp
      by (auto simp: tryJSON_ok convertAndForward_def dest: jsonAttempt_events split: sum.splits)
    with True show ?thesis by simp
  qed
qed

lemma attempts_no_propose:
  "\<not> list_ex isPropose (concat (map (jsonAttempt bs body) schs))"
  by (induction schs) (auto simp: jsonAttempt_def isPropose_def split: sum.splits)

lemma jsonMatches_iff:
  "jsonMatches bs body sch \<longleftrightarrow>
     (\<exists>decoded. unmarshalStrict bs sch body = Inr decoded \<and> validate_Struct bs sch decoded = None)"
  by (auto simp: jsonMatches_def split: sum.splits option.splits)

text \<open>
  Claim C3 (the double gate of the JSON dispatch).  A schema matches a JSON body exactly
  when the strict decode succeeds and the struct validator accepts the decoded value.  A
  body that no schema of the handler matches is answered with 400
  \<^verbatim>\<open>Body does not represent a valid block type\<close>, after every schema has been tried in
  the order Deneb, Capella, Bellatrix, Altair, Phase0, and without a call to the propose
  RPC; and the handler converts (\<^verbatim>\<open>ToGeneric\<close>) a decoded value only for a schema that
  passed both tests.  The same holds for the blinded handler.
\<close>

theorem publish_JSON_double_gate:
  assumes body: "Body r = Inr body"
  shows
    "(jsonMatches bs body sch \<longleftrightarrow>
        (\<exists>decoded. unmarshalStrict bs sch body = Inr decoded \<and> validate_Struct bs sch decoded = None))
     \<and> ((\<forall>s \<in> set blockSchemas. \<not> jsonMatches bs body s) \<longrightarrow>
          publishBlockV2 bs r =
            (concat (map (jsonAttempt bs body) blockSchemas),
             Some \<lparr> Message = ''Body does not represent a valid block type'', Code = StatusBadRequest \<rparr>)
          \<and> \<not> list_ex isPropose (fst (publishBlockV2 bs r)))
     \<and> (Call_ToGeneric sch \<in> set (fst (publishBlockV2 bs r)) \<longrightarrow> jsonMatches bs body sch)
     \<and> ((\<forall>s \<in> set blindedBlockSchemas. \<not> jsonMatches bs body s) \<longrightarrow>
          publishBlindedBlockV2 bs r =
            (concat (map (jsonAttempt bs body) blindedBlockSchemas),
             Some \<lparr> Message = ''Body does not represent a valid block type'', Code = StatusBadRequest \<rparr>)
          \<and> \<not> list_ex isPropose (fst (publishBlindedBlockV2 bs r)))
     \<and> (Call_ToGeneric sch \<in> set (fst (publishBlindedBlockV2 bs r)) \<longrightarrow> jsonMatches bs body sch)"
proof -
  have full: "(\<forall>s \<in> set blockSchemas. \<not> jsonMatches bs body s) \<longrightarrow>
          publishBlockV2 bs r =
            (concat (map (jsonAttempt bs body) blockSchemas),
             Some \<lparr> Message = ''Body does not represent a valid block type'', Code = StatusBadRequest \<rparr>)
          \<and> \<not> list_ex isPropose (fst (publishBlockV2 bs r))"
    using attempts_no_propose [of bs body blockSchemas]
    by (simp add: publishBlockV2_dispatch [OF body] dispatchJSON_none)
  have blinded: "(\<forall>s \<in> set blindedBlockSchemas. \<not> jsonMatches bs body s) \<longrightarrow>
          publishBlindedBlockV2 bs r =
            (concat (map (jsonAttempt bs body) blindedBlockSchemas),
             Some \<lparr> Message = ''Body does not represent a valid block type'', Code = StatusBadRequest \<rparr>)
          \<and> \<not> list_ex isPropose (fst (publishBlindedBlockV2 bs r))"
    using attempts_no_propose [of bs body blindedBlockSchemas]
    by (simp add: publishBlindedBlockV2_dispatch [OF body] dispatchJSON_none)
  have conv: "Call_ToGeneric sch \<in> set (fst (publishBlockV2 bs r)) \<longrightarrow> jsonMatches bs body sch"
    "Call_ToGeneric sch \<in> set (fst (publishBlindedBlockV2 bs r)) \<longrightarrow> jsonMatches bs body sch"
    by (auto simp: publishBlockV2_dispatch [OF body] publishBlindedBlockV2_dispatch [OF body]
        dest: dispatchJSON_ToGeneric)
  from full blinded conv jsonMatches_iff [of bs body sch] show ?thesis by blast
qed

theorem publish_JSON_double_gate_witness:
  "publishBlockV2 (sampleServer \<lparr> validate_Struct := \<lambda>sch decoded. Some ''Field validation failed'' \<rparr>)
       (sampleRequest []) =
     ([Call_unmarshalStrict SignedBeaconBlockContentsDeneb, Call_unmarshalStrict SignedBeaconBlockCapella,
       Call_unmarshalStrict SignedBeaconBlockBellatrix,
       Call_unmarshalStrict SignedBeaconBlockAltair, Call_validate_Struct SignedBeaconBlockAltair,
       Call_unmarshalStrict SignedBeaconBlock, Call_validate_Struct SignedBeaconBlock],
      Some \<lparr> Message = ''Body does not represent a valid block type'', Code = StatusBadRequest \<rparr>)"
proof -
  let ?bs = "sampleServer \<lparr> validate_Struct := \<lambda>sch decoded. Some ''Field validation failed'' \<rparr>"
  have body: "Body (sampleRequest []) = Inr [1]"
    by (simp add: sampleRequest_def)
  have none: "\<forall>s \<in> set blockSchemas. \<not> jsonMatches ?bs [1] s"
    by (simp add: jsonMatches_def unmarshalStrict_def sampleServer_def blockSchemas_def)
  have att: "concat (map (jsonAttempt ?bs [1]) blockSchemas) =
     [Call_unmarshalStrict SignedBeaconBlockContentsDeneb, Call_unmarshalStrict SignedBeaconBlockCapella,
       Call_unmarshalStrict SignedBeaconBlockBellatrix,
       Call_unmarshalStrict SignedBeaconBlockAltair, Call_validate_Struct SignedBeaconBlockAltair,
       Call_unmarshalStrict SignedBeaconBlock, Call_validate_Struct SignedBeaconBlock]"
    by (simp add: jsonAttempt_def unmarshalStrict_def sampleServer_def blockSchemas_def)
  from publish_JSON_double_gate [OF body, of ?bs] none att show ?thesis by simp
qed

lemma find_Some_split:
  assumes "find P xs = Some x"
  shows "xs = takeWhile (\<lambda>s. \<not> P s) xs @ x # tl (dropWhile (\<lambda>s. \<not> P s) xs)"
  using assms by (induction xs) (auto split: if_splits)

lemma later_not_tried:
  assumes d: "distinct schs"
    and f: "find P schs = Some sch"
    and l: "later \<in> set (tl (dropWhile (\<lambda>s. \<not> P s) schs))"
  shows "later \<noteq> sch \<and> later \<notin> set (takeWhile (\<lambda>s. \<not> P s) schs)"
proof -
  let ?pre = "takeWhile (\<lambda>s. \<not> P s) schs" and ?post = "tl (dropWhile (\<lambda>s. \<not> P s) schs)"
  from find_Some_split [OF f] have "schs = ?pre @ sch # ?post" .
  with d have "distinct (?pre @ sch # ?post)" by simp
  with l show ?thesis by auto
qed

lemma dispatchJSON_conversion_failure:
  assumes f: "find (jsonMatches bs body) schs = Some sch"
    and e: "ToGeneric bs sch (projr (unmarshalStrict bs sch body)) = Inl err"
  shows "dispatchJSON bs r body schs =
      (concat (map (jsonAttempt bs body) (takeWhile (\<lambda>s. \<not> jsonMatches bs body s) schs))
         @ [Call_unmarshalStrict sch, Call_validate_Struct sch, Call_ToGeneric sch],
       Some \<lparr> Message = ''Could not decode request body into consensus block: '' @ err,
              Code = StatusBadRequest \<rparr>)"
proof -
  from f have m: "jsonMatches bs body sch"
    by (auto simp: find_Some_iff)
  then have a: "jsonAttempt bs body sch = [Call_unmarshalStrict sch, Call_validate_Struct sch]"
    by (auto simp: jsonMatches_def jsonAttempt_def split: sum.splits)
  show ?thesis
    by (simp add: dispatchJSON_first f convertAndForward_def e a)
qed

lemma dispatchJSON_stops:
  assumes d: "distinct schs"
    and f: "find (jsonMatches bs body) schs = Some sch"
    and e: "ToGeneric bs sch (projr (unmarshalStrict bs sch body)) = Inl err"
    and l: "later \<in> set (tl (dropWhile (\<lambda>s. \<not> jsonMatches bs body s) schs))"
  shows "Call_unmarshalStrict later \<notin> set (fst (dispatchJSON bs r body schs))"
proof -
  from later_not_tried [OF d f l]
  have ne: "later \<noteq> sch" and nt: "later \<notin> set (takeWhile (\<lambda>s. \<not> jsonMatches bs body s) schs)"
    by simp_all
  show ?thesis
    using ne nt
    by (auto simp: dispatchJSON_conversion_failure [OF f e] dest: jsonAttempt_events)
qed

text \<open>
  Claim C10 (a conversion failure ends the dispatch).  If \<open>sch\<close> is the first schema that
  the JSON body matches and \<^verbatim>\<open>ToGeneric\<close> fails on the decoded value, \<^verbatim>\<open>publishBlockV2\<close>
  answers 400 with a message that begins with
  \<^verbatim>\<open>Could not decode request body into consensus block\<close>; \<^verbatim>\<open>ToGeneric\<close> is its last call,
  so none of the schemas after \<open>sch\<close> is tried and the propose RPC is not called.
\<close>

theorem publish_JSON_conversion_failure_stops:
  assumes body: "Body r = Inr body"
    and first: "find (jsonMatches bs body) blockSchemas = Some sch"
    and conv: "ToGeneric bs sch (projr (unmarshalStrict bs sch body)) = Inl err"
  shows
    "publishBlockV2 bs r =
       (concat (map (jsonAttempt bs body) (takeWhile (\<lambda>s. \<not> jsonMatches bs body s) blockSchemas))
          @ [Call_unmarshalStrict sch, Call_validate_Struct sch, Call_ToGeneric sch],
        Some \<lparr> Message = ''Could not decode request body into consensus block: '' @ err,
               Code = StatusBadRequest \<rparr>)
     \<and> (\<forall>later \<in> set (tl (dropWhile (\<lambda>s. \<not> jsonMatches bs body s) blockSchemas)).
          Call_unmarshalStrict later \<notin> set (fst (publishBlockV2 bs r)))
     \<and> \<not> list_ex isPropose (fst (publishBlockV2 bs r))
     \<and> prefix ''Could not decode request body into consensus block''
          (''Could not decode request body into consensus block: '' @ err)"
proof -
  have d: "distinct blockSchemas"
    by (simp add: blockSchemas_def)
  note eq = dispatchJSON_conversion_failure [OF first conv, of r]
  have np: "\<not> list_ex isPropose (fst (dispatchJSON bs r body blockSchemas))"
    using attempts_no_propose [of bs body "takeWhile (\<lambda>s. \<not> jsonMatches bs body s) blockSchemas"]
    by (simp add: eq isPropose_def)
  have pre: "prefix ''Could not decode request body into consensus block''
          (''Could not decode request body into consensus block: '' @ err)"
    by simp
  show ?thesis
    using dispatchJSON_stops [OF d first conv, of _ r] np pre
    by (simp add: publishBlockV2_dispatch [OF body] eq)
qed

theorem publish_JSON_conversion_failure_stops_witness:
  "publishBlockV2 (sampleServer \<lparr> validate_Struct := \<lambda>sch decoded. None,
                                  ToGeneric := \<lambda>sch decoded. Inl ''could not decode b.Signature: empty hex string'' \<rparr>)
       (sampleRequest []) =
     ([Call_unmarshalStrict SignedBeaconBlockContentsDeneb, Call_unmarshalStrict SignedBeaconBlockCapella,
       Call_unmarshalStrict SignedBeaconBlockBellatrix,
       Call_unmarshalStrict SignedBeaconBlockAltair, Call_validate_Struct SignedBeaconBlockAltair,
       Call_ToGeneric SignedBeaconBlockAltair],
      Some \<lparr> Message = ''Could not decode request body into consensus block: could not decode b.Signature: empty hex string'',
             Code = StatusBadRequest \<rparr>)"
proof -
  let ?bs = "sampleServer \<lparr> validate_Struct := \<lambda>sch decoded. None,
                            ToGeneric := \<lambda>sch decoded. Inl ''could not decode b.Signature: empty hex string'' \<rparr>"
  have body: "Body (sampleRequest []) = Inr [1]"
    by (simp add: sampleRequest_def)
  have m: "jsonMatches ?bs [1] = (\<lambda>sch. sch = SignedBeaconBlockAltair \<or> sch = SignedBeaconBlock)"
    by (rule ext) (simp add: jsonMatches_def unmarshalStrict_def sampleServer_def)
  have first: "find (jsonMatches ?bs [1]) blockSchemas = Some SignedBeaconBlockAltair"
    by (simp add: m blockSchemas_def)
  have conv: "ToGeneric ?bs SignedBeaconBlockAltair (projr (unmarshalStrict ?bs SignedBeaconBlockAltair [1]))
                = Inl ''could not decode b.Signature: empty hex string''"
    by simp
  have att: "concat (map (jsonAttempt ?bs [1]) (takeWhile (\<lambda>s. \<not> jsonMatches ?bs [1] s) blockSchemas)) =
     [Call_unmarshalStrict SignedBeaconBlockContentsDeneb, Call_unmarshalStrict SignedBeaconBlockCapella,
       Call_unmarshalStrict SignedBeaconBlockBellatrix]"
    unfolding m
    by (simp add: jsonAttempt_def unmarshalStrict_def sampleServer_def blockSchemas_def)
  from publish_JSON_conversion_failure_stops [OF body first conv] att show ?thesis by simp
qed

text \<open>
  Two scenarios of the specification, run on the sample node: a JSON Phase0 block posted
  with \<^verbatim>\<open>broadcast_validation=consensus\<close> whose parent state cannot be found, and a
  binary body posted to the blinded endpoint that no schema decodes.
\<close>

lemma publishBlockV2_missing_parent_state:
  "publishBlockV2 (sampleServer \<lparr> Stater_State := \<lambda>root. Inl ''could not find state'' \<rparr>)
       (sampleRequest [''consensus'']) =
     ([Call_unmarshalStrict SignedBeaconBlockContentsDeneb, Call_unmarshalStrict SignedBeaconBlockCapella,
       Call_unmarshalStrict SignedBeaconBlockBellatrix,
       Call_unmarshalStrict SignedBeaconBlockAltair, Call_validate_Struct SignedBeaconBlockAltair,
       Call_unmarshalStrict SignedBeaconBlock, Call_validate_Struct SignedBeaconBlock,
       Call_ToGeneric SignedBeaconBlock, Call_State [0]],
      Some \<lparr> Message = ''consensus validation failed: could not get parent state: could not find state'',
             Code = StatusBadRequest \<rparr>)"
  by (simp add: publishBlockV2_def tryJSON_def convertAndForward_def validateThenPropose_def
      validateBroadcast_def validateConsensus_def unmarshalStrict_def Wrap_def
      sampleServer_def sampleRequest_def Values_Get_def
      broadcastValidationQueryParam_def broadcastValidationConsensus_def)

lemma publishBlindedBlockV2SSZ_undecodable:
  "publishBlindedBlockV2SSZ sampleServer (sampleRequest [] \<lparr> Body := Inr [9, 9] \<rparr>) =
     ([Call_UnmarshalSSZ SignedBlindedBeaconBlockContentsDeneb,
       Call_UnmarshalSSZ SignedBlindedBeaconBlockCapella,
       Call_UnmarshalSSZ SignedBlindedBeaconBlockBellatrix,
       Call_UnmarshalSSZ SignedBeaconBlockAltair,
       Call_UnmarshalSSZ SignedBeaconBlock],
      Some \<lparr> Message = ''Body does not represent a valid block type'', Code = StatusBadRequest \<rparr>)"
  by (simp add: publishBlindedBlockV2SSZ_def trySSZ_def notAValidBlockType_def
      sampleServer_def sampleRequest_def)

section \<open>Properties of block production\<close>

lemma produceCase_skip:
  "produceCase bs isSSZ resp False ver blinded fileName hdr otherwise = otherwise hdr"
  by (simp add: produceCase_def)

lemma produceCase_taken:
  "produceCase bs isSSZ resp True ver blinded fileName hdr otherwise =
     (if isSSZ then
        (case MarshalSSZ bs (Block resp) of
           Inl err \<Rightarrow>
             ([], \<lparr> Header = setPayloadHeaders resp hdr,
                    Written = Some (WriteError \<lparr> Message = err, Code = StatusInternalServerError \<rparr>) \<rparr>)
         | Inr sszResp \<Rightarrow>
             ([], \<lparr> Header = setPayloadHeaders resp hdr, Written = Some (WriteSsz sszResp fileName) \<rparr>))
      else
        (case convertInternal bs (Block resp) of
           Inl err \<Rightarrow>
             ([], \<lparr> Header = setPayloadHeaders resp hdr,
                    Written = Some (WriteError \<lparr> Message = err, Code = StatusInternalServerError \<rparr>) \<rparr>)
         | Inr block \<Rightarrow>
             (case validate_Block bs block of
                None \<Rightarrow>
                  ([], \<lparr> Header = setPayloadHeaders resp hdr,
                         Written = Some (WriteJson
                           \<lparr> Version = ver,
                             ExecutionPayloadBlinded = blinded,
                             ExeuctionPayloadValue = Sprintf_d (unat (PayloadValue resp)),
                             Data = block \<rparr>) \<rparr>)
              | Some err \<Rightarrow> otherwise (setPayloadHeaders resp hdr))))"
  by (simp add: produceCase_def Let_def)

lemma produceBlockV3_resp:
  assumes "GetBeaconBlock bs = Inr resp"
  shows "produceBlockV3 bs =
     prepend [Call_GetBeaconBlock]
       (produceCase bs (wantsSSZ bs) resp (isPhase0 (Block resp))
              Phase0 False ''phase0Block.ssz'' Map.empty (\<lambda>hdr.
            produceCase bs (wantsSSZ bs) resp (isAltair (Block resp))
              Altair False ''altairBlock.ssz'' hdr (\<lambda>hdr.
            optimisticGuard bs hdr (\<lambda>hdr.
            produceCase bs (wantsSSZ bs) resp (isBlindedBellatrix (Block resp))
              Bellatrix True ''blindeBellatrixBlock.ssz'' hdr (\<lambda>hdr.
            produceCase bs (wantsSSZ bs) resp (isBellatrix (Block resp))
              Bellatrix False ''bellatrixBlock.ssz'' hdr (\<lambda>hdr.
            produceCase bs (wantsSSZ bs) resp (isBlindedCapella (Block resp))
              Capella True ''blindedCapellaBlock.ssz'' hdr (\<lambda>hdr.
            produceCase bs (wantsSSZ bs) resp (isCapella (Block resp))
              Capella False ''capellaBlock.ssz'' hdr (\<lambda>hdr.
            produceCase bs (wantsSSZ bs) resp (isBlindedDeneb (Block resp))
              Deneb True ''blindedDenebBlockContents.ssz'' hdr (\<lambda>hdr.
            produceCase bs (wantsSSZ bs) resp (isDeneb (Block resp))
              Deneb True ''denebBlockContents.ssz'' hdr (\<lambda>hdr.
            ([], \<lparr> Header = hdr, Written = None \<rparr>)))))))))))"
  using assms by (simp add: produceBlockV3_def wantsSSZ_def Let_def)

lemma optimisticGuard_consults:
  "Call_IsOptimistic \<in> set (fst (optimisticGuard bs hdr otherwise))"
  by (simp add: optimisticGuard_def)

lemma optimisticGuard_error:
  "IsOptimistic bs = Inl err \<Longrightarrow>
   Written (snd (optimisticGuard bs hdr otherwise)) =
     Some (WriteError \<lparr> Message = ''Could not determine if the node is a optimistic node: '' @ err,
                        Code = StatusInternalServerError \<rparr>)"
  by (simp add: optimisticGuard_def Wrap_def)

lemma optimisticGuard_optimistic:
  "IsOptimistic bs = Inr True \<Longrightarrow>
   Written (snd (optimisticGuard bs hdr otherwise)) =
     Some (WriteError \<lparr> Message = ''The node is currently optimistic and cannot serve validators'',
                        Code = StatusServiceUnavailable \<rparr>)"
  by (simp add: optimisticGuard_def)

lemma post_Bellatrix_guard:
  assumes "GetBeaconBlock bs = Inr resp" "\<not> preBellatrix (Block resp)"
  shows "\<exists>hdr otherwise. produceBlockV3 bs = prepend [Call_GetBeaconBlock] (optimisticGuard bs hdr otherwise)"
  using assms
  by (auto simp: produceBlockV3_resp preBellatrix_def produceCase_skip)

lemma produceBlockV3_success_headers:
  assumes get: "GetBeaconBlock bs = Inr resp"
    and ret: "returnsBlock (snd (produceBlockV3 bs))"
  shows "Header (snd (produceBlockV3 bs)) ExecutionPayloadBlindedHeader = Some (Sprintf_v (IsBlinded resp))
         \<and> Header (snd (produceBlockV3 bs)) ExecutionPayloadValueHeader
             = Some (Sprintf_d (unat (PayloadValue resp)))"
  using ret
  by (cases "Block resp")
     (auto simp: produceBlockV3_resp [OF get] produceCase_skip produceCase_taken optimisticGuard_def
        returnsBlock_def setPayloadHeaders_def
        split: if_splits sum.splits option.splits)

lemma produceBlockV3_json_flag:
  assumes get: "GetBeaconBlock bs = Inr resp"
    and json: "Written (snd (produceBlockV3 bs)) = Some (WriteJson j)"
  shows "ExecutionPayloadBlinded j = (blindedVariant (Block resp) \<or> isDeneb (Block resp))"
  using json
  by (cases "Block resp")
     (auto simp: produceBlockV3_resp [OF get] produceCase_skip produceCase_taken optimisticGuard_def
        split: if_splits sum.splits option.splits)

text \<open>
  Claim C8 (metadata of a production response).  The claim asks that the field
  \<^verbatim>\<open>ExecutionPayloadBlinded\<close> of the JSON body is false for a full Deneb block.  On the
  sample producer, whose validator server answers with a full Deneb block, the code sets
  both headers (the blinded header to \<^verbatim>\<open>false\<close>) and writes a body whose
  \<^verbatim>\<open>ExecutionPayloadBlinded\<close> is true.
\<close>

theorem produceBlockV3_full_Deneb_marked_blinded:
  "fst (produceBlockV3 sampleProducer) = [Call_GetBeaconBlock, Call_IsOptimistic]
   \<and> Header (snd (produceBlockV3 sampleProducer)) ExecutionPayloadBlindedHeader = Some ''false''
   \<and> Header (snd (produceBlockV3 sampleProducer)) ExecutionPayloadValueHeader = Some ''0''
   \<and> Written (snd (produceBlockV3 sampleProducer)) =
       Some (WriteJson \<lparr> Version = Deneb, ExecutionPayloadBlinded = True,
                         ExeuctionPayloadValue = ''0'', Data = ''block contents'' \<rparr>)
   \<and> \<not> blindedVariant (GenericBeaconBlock_Deneb ([] :: byte list))"
proof -
  have get: "GetBeaconBlock sampleProducer =
               Inr \<lparr> Block = GenericBeaconBlock_Deneb [], IsBlinded = False, PayloadValue = 0 \<rparr>"
    by (simp add: sampleProducer_def)
  have ssz: "wantsSSZ sampleProducer = False"
    by (simp add: wantsSSZ_def sampleProducer_def)
  have zero: "Sprintf_d 0 = ''0''"
    by (simp add: Sprintf_d.simps digitChar_def)
  have rest: "IsOptimistic sampleProducer = Inr False"
    "convertInternal sampleProducer = (\<lambda>blk. Inr ''block contents'')"
    "validate_Block sampleProducer = (\<lambda>block. None)"
    by (simp_all add: sampleProducer_def)
  show ?thesis
    by (simp add: produceBlockV3_resp [OF get] ssz produceCase_skip produceCase_taken
        optimisticGuard_def rest setPayloadHeaders_def Sprintf_v_def zero)
qed

text \<open>
  Claim C9 as it is stated says that a Phase0 or Altair block never leads to the
  optimistic status being consulted.  On the producer below it does: the validator server
  answers with a Phase0 block, JSON is requested, the block converts, the struct validator
  rejects the converted block, the handler leaves the Phase0 branch without returning,
  reaches the guard, asks the optimistic-mode fetcher and answers 503.
\<close>

theorem produceBlockV3_Phase0_reaches_guard:
  "preBellatrix (GenericBeaconBlock_Phase0 ([] :: byte list))
   \<and> GetBeaconBlock rejectingProducer
       = Inr \<lparr> Block = GenericBeaconBlock_Phase0 [], IsBlinded = False, PayloadValue = 0 \<rparr>
   \<and> fst (produceBlockV3 rejectingProducer) = [Call_GetBeaconBlock, Call_IsOptimistic]
   \<and> consultsOptimistic (fst (produceBlockV3 rejectingProducer))
   \<and> Written (snd (produceBlockV3 rejectingProducer)) =
       Some (WriteError \<lparr> Message = ''The node is currently optimistic and cannot serve validators'',
                          Code = StatusServiceUnavailable \<rparr>)"
proof -
  have get: "GetBeaconBlock rejectingProducer
       = Inr \<lparr> Block = GenericBeaconBlock_Phase0 [], IsBlinded = False, PayloadValue = 0 \<rparr>"
    by (simp add: rejectingProducer_def)
  have rest: "wantsSSZ rejectingProducer = False"
    "IsOptimistic rejectingProducer = Inr True"
    "convertInternal rejectingProducer = (\<lambda>blk. Inr ''block'')"
    "validate_Block rejectingProducer = (\<lambda>block. Some ''Field validation for Slot failed on the required tag'')"
    by (simp_all add: wantsSSZ_def rejectingProducer_def)
  show ?thesis
    by (simp add: get produceBlockV3_resp [OF get] rest produceCase_skip produceCase_taken
        optimisticGuard_def consultsOptimistic_def preBellatrix_def)
qed

text \<open>
  For a Phase0 or Altair block, the handler is its own branch followed by the guard and
  nothing else.
\<close>

lemma pre_Bellatrix_branch:
  assumes get: "GetBeaconBlock bs = Inr resp" and pre: "preBellatrix (Block resp)"
  shows "produceBlockV3 bs =
     prepend [Call_GetBeaconBlock]
       (produceCase bs (wantsSSZ bs) resp True (if isPhase0 (Block resp) then Phase0 else Altair) False
          (if isPhase0 (Block resp) then ''phase0Block.ssz'' else ''altairBlock.ssz'') Map.empty
          (\<lambda>hdr. optimisticGuard bs hdr (\<lambda>hdr. ([], \<lparr> Header = hdr, Written = None \<rparr>))))"
  using pre
  by (cases "Block resp")
     (simp_all add: produceBlockV3_resp [OF get] preBellatrix_def produceCase_skip produceCase_taken)

text \<open>
  Claim C9, amended (the optimistic guard).  When the produced block is of fork Bellatrix
  or later, the handler asks the optimistic-mode fetcher before anything else, answers 500
  if the fetcher fails and 503 with
  \<^verbatim>\<open>The node is currently optimistic and cannot serve validators\<close> if it reports true.
  A Phase0 or Altair block is answered without the fetcher being asked whenever SSZ is
  requested (the SSZ bytes, or 500 when marshalling fails), whenever the conversion fails
  (500), and whenever the converted block passes the struct validator (the JSON response
  of that fork, not blinded): in each case \<^verbatim>\<open>GetBeaconBlock\<close> is the only call made.
\<close>

theorem produceBlockV3_optimistic_guard:
  assumes get: "GetBeaconBlock bs = Inr resp"
  shows
    "(\<not> preBellatrix (Block resp) \<longrightarrow>
        consultsOptimistic (fst (produceBlockV3 bs))
        \<and> (\<forall>err. IsOptimistic bs = Inl err \<longrightarrow>
              produceBlockV3 bs =
                ([Call_GetBeaconBlock, Call_IsOptimistic],
                 \<lparr> Header = Map.empty,
                   Written = Some (WriteError
                     \<lparr> Message = ''Could not determine if the node is a optimistic node: '' @ err,
                       Code = StatusInternalServerError \<rparr>) \<rparr>))
        \<and> (IsOptimistic bs = Inr True \<longrightarrow>
              produceBlockV3 bs =
                ([Call_GetBeaconBlock, Call_IsOptimistic],
                 \<lparr> Header = Map.empty,
                   Written = Some (WriteError
                     \<lparr> Message = ''The node is currently optimistic and cannot serve validators'',
                       Code = StatusServiceUnavailable \<rparr>) \<rparr>)))
     \<and> (preBellatrix (Block resp) \<and> wantsSSZ bs \<longrightarrow>
          produceBlockV3 bs =
            ([Call_GetBeaconBlock],
             \<lparr> Header = setPayloadHeaders resp Map.empty,
               Written = Some
                 (case MarshalSSZ bs (Block resp) of
                    Inl err \<Rightarrow> WriteError \<lparr> Message = err, Code = StatusInternalServerError \<rparr>
                  | Inr sszResp \<Rightarrow>
                      WriteSsz sszResp
                        (if isPhase0 (Block resp) then ''phase0Block.ssz'' else ''altairBlock.ssz'')) \<rparr>))
     \<and> (preBellatrix (Block resp) \<and> \<not> wantsSSZ bs \<longrightarrow>
          (\<forall>err. convertInternal bs (Block resp) = Inl err \<longrightarrow>
             produceBlockV3 bs =
               ([Call_GetBeaconBlock],
                \<lparr> Header = setPayloadHeaders resp Map.empty,
                  Written = Some (WriteError \<lparr> Message = err, Code = StatusInternalServerError \<rparr>) \<rparr>))
          \<and> (\<forall>block. convertInternal bs (Block resp) = Inr block \<and> validate_Block bs block = None \<longrightarrow>
             produceBlockV3 bs =
               ([Call_GetBeaconBlock],
                \<lparr> Header = setPayloadHeaders resp Map.empty,
                  Written = Some (WriteJson
                    \<lparr> Version = (if isPhase0 (Block resp) then Phase0 else Altair),
                      ExecutionPayloadBlinded = False,
                      ExeuctionPayloadValue = Sprintf_d (unat (PayloadValue resp)),
                      Data = block \<rparr>) \<rparr>)))"
proof -
  have post: "\<not> preBellatrix (Block resp) \<longrightarrow>
        consultsOptimistic (fst (produceBlockV3 bs))
        \<and> (\<forall>err. IsOptimistic bs = Inl err \<longrightarrow>
              produceBlockV3 bs =
                ([Call_GetBeaconBlock, Call_IsOptimistic],
                 \<lparr> Header = Map.empty,
                   Written = Some (WriteError
                     \<lparr> Message = ''Could not determine if the node is a optimistic node: '' @ err,
                       Code = StatusInternalServerError \<rparr>) \<rparr>))
        \<and> (IsOptimistic bs = Inr True \<longrightarrow>
              produceBlockV3 bs =
                ([Call_GetBeaconBlock, Call_IsOptimistic],
                 \<lparr> Header = Map.empty,
                   Written = Some (WriteError
                     \<lparr> Message = ''The node is currently optimistic and cannot serve validators'',
                       Code = StatusServiceUnavailable \<rparr>) \<rparr>))"
    by (auto simp: produceBlockV3_resp [OF get] preBellatrix_def produceCase_skip
        optimisticGuard_def consultsOptimistic_def Wrap_def)
  have ssz: "preBellatrix (Block resp) \<and> wantsSSZ bs \<longrightarrow>
          produceBlockV3 bs =
            ([Call_GetBeaconBlock],
             \<lparr> Header = setPayloadHeaders resp Map.empty,
               Written = Some
                 (case MarshalSSZ bs (Block resp) of
                    Inl err \<Rightarrow> WriteError \<lparr> Message = err, Code = StatusInternalServerError \<rparr>
                  | Inr sszResp \<Rightarrow>
                      WriteSsz sszResp
                        (if isPhase0 (Block resp) then ''phase0Block.ssz'' else ''altairBlock.ssz'')) \<rparr>)"
    by (auto simp: pre_Bellatrix_branch [OF get] produceCase_taken split: sum.splits)
  have json: "preBellatrix (Block resp) \<and> \<not> wantsSSZ bs \<longrightarrow>
          (\<forall>err. convertInternal bs (Block resp) = Inl err \<longrightarrow>
             produceBlockV3 bs =
               ([Call_GetBeaconBlock],
                \<lparr> Header = setPayloadHeaders resp Map.empty,
                  Written = Some (WriteError \<lparr> Message = err, Code = StatusInternalServerError \<rparr>) \<rparr>))
          \<and> (\<forall>block. convertInternal bs (Block resp) = Inr block \<and> validate_Block bs block = None \<longrightarrow>
             produceBlockV3 bs =
               ([Call_GetBeaconBlock],
                \<lparr> Header = setPayloadHeaders resp Map.empty,
                  Written = Some (WriteJson
                    \<lparr> Version = (if isPhase0 (Block resp) then Phase0 else Altair),
                      ExecutionPayloadBlinded = False,
                      ExeuctionPayloadValue = Sprintf_d (unat (PayloadValue resp)),
                      Data = block \<rparr>) \<rparr>))"
    by (auto simp: pre_Bellatrix_branch [OF get] produceCase_taken)
  from post ssz json show ?thesis by blast
qed

theorem produceBlockV3_optimistic_guard_witness:
  "produceBlockV3
      (sampleProducer \<lparr> GetBeaconBlock := Inr \<lparr> Block = GenericBeaconBlock_Bellatrix [], IsBlinded = False, PayloadValue = 0 \<rparr>,
                        IsOptimistic := Inr True \<rparr>) =
     ([Call_GetBeaconBlock, Call_IsOptimistic],
      \<lparr> Header = Map.empty,
        Written = Some (WriteError
          \<lparr> Message = ''The node is currently optimistic and cannot serve validators'',
            Code = StatusServiceUnavailable \<rparr>) \<rparr>)
   \<and> fst (produceBlockV3
      (sampleProducer \<lparr> GetBeaconBlock := Inr \<lparr> Block = GenericBeaconBlock_Phase0 [], IsBlinded = False, PayloadValue = 0 \<rparr>,
                        IsOptimistic := Inr True \<rparr>)) = [Call_GetBeaconBlock]
   \<and> Written (snd (produceBlockV3
      (sampleProducer \<lparr> GetBeaconBlock := Inr \<lparr> Block = GenericBeaconBlock_Phase0 [], IsBlinded = False, PayloadValue = 0 \<rparr>,
                        IsOptimistic := Inr True \<rparr>))) =
     Some (WriteJson \<lparr> Version = Phase0, ExecutionPayloadBlinded = False,
                       ExeuctionPayloadValue = ''0'', Data = ''block contents'' \<rparr>)"
proof -
  let ?r1 = "\<lparr> Block = GenericBeaconBlock_Bellatrix ([] :: byte list), IsBlinded = False, PayloadValue = 0 \<rparr>"
  let ?r2 = "\<lparr> Block = GenericBeaconBlock_Phase0 ([] :: byte list), IsBlinded = False, PayloadValue = 0 \<rparr>"
  let ?bs1 = "sampleProducer \<lparr> GetBeaconBlock := Inr ?r1, IsOptimistic := Inr True \<rparr>"
  let ?bs2 = "sampleProducer \<lparr> GetBeaconBlock := Inr ?r2, IsOptimistic := Inr True \<rparr>"
  have g1: "GetBeaconBlock ?bs1 = Inr ?r1" and g2: "GetBeaconBlock ?bs2 = Inr ?r2"
    by simp_all
  have o1: "IsOptimistic ?bs1 = Inr True"
    by simp
  have k1: "\<not> preBellatrix (Block ?r1)" and k2: "preBellatrix (Block ?r2)"
    by (simp_all add: preBellatrix_def)
  have j2: "\<not> wantsSSZ ?bs2" "convertInternal ?bs2 (Block ?r2) = Inr ''block contents''"
    "validate_Block ?bs2 ''block contents'' = None"
    by (simp_all add: wantsSSZ_def sampleProducer_def)
  have zero: "Sprintf_d (unat (PayloadValue ?r2)) = ''0''"
    by (simp add: Sprintf_d.simps digitChar_def)
  have ph: "isPhase0 (Block ?r2)"
    by simp
  from produceBlockV3_optimistic_guard [OF g1] o1 k1
  have a: "produceBlockV3 ?bs1 =
     ([Call_GetBeaconBlock, Call_IsOptimistic],
      \<lparr> Header = Map.empty,
        Written = Some (WriteError
          \<lparr> Message = ''The node is currently optimistic and cannot serve validators'',
            Code = StatusServiceUnavailable \<rparr>) \<rparr>)"
    by blast
  from produceBlockV3_optimistic_guard [OF g2] k2 j2
  have "produceBlockV3 ?bs2 =
               ([Call_GetBeaconBlock],
                \<lparr> Header = setPayloadHeaders ?r2 Map.empty,
                  Written = Some (WriteJson
                    \<lparr> Version = (if isPhase0 (Block ?r2) then Phase0 else Altair),
                      ExecutionPayloadBlinded = False,
                      ExeuctionPayloadValue = Sprintf_d (unat (PayloadValue ?r2)),
                      Data = ''block contents'' \<rparr>) \<rparr>)"
    by blast
  then have b: "fst (produceBlockV3 ?bs2) = [Call_GetBeaconBlock]"
    and c: "Written (snd (produceBlockV3 ?bs2)) =
     Some (WriteJson \<lparr> Version = Phase0, ExecutionPayloadBlinded = False,
                       ExeuctionPayloadValue = ''0'', Data = ''block contents'' \<rparr>)"
    using zero ph by simp_all
  from a b c show ?thesis by blast
qed

end
